theory Spec2Isabelle
  imports Complex_Main
begin

section \<open>Data model (types/index.ts)\<close>

text \<open>
  JavaScript numbers are modelled as \<^typ>\<open>real\<close> (IEEE rounding is idealised away), and as
  \<^typ>\<open>int\<close> where the source only ever produces integers (loop counters,
  \<open>Math.floor\<close> results, the frame counter). Strings are \<^typ>\<open>string\<close>.
\<close>

datatype js_error = TypeError

record Drop =
  drop_x :: int
  drop_y :: real
  drop_speed :: real
  drop_length :: real

record RandomSeed =
  r1 :: real
  r2 :: real
  r3 :: real

record LayerConfig =
  symbolSet :: string
  density :: real
  cellSize :: real
  color :: string
  bgColor :: string
  animationSpeed :: real
  pattern :: string
  gradient :: bool
  glowEffect :: bool
  shapeInfluence :: real
  gradientStrength :: real
  glowIntensity :: real
  glowRadius :: real

text \<open>\<open>shapeImage\<close> is an \<open>HTMLImageElement | null\<close>; the element is an opaque handle.\<close>

record Layer =
  layer_id :: string
  name :: string
  visible :: bool
  opacity :: real
  config :: LayerConfig
  shapeImage :: "nat option"
  shapeData :: "real list list option"

section \<open>Constants (utils/constants.ts)\<close>

definition DEFAULT_LAYER_CONFIG :: LayerConfig where
  "DEFAULT_LAYER_CONFIG =
     \<lparr> symbolSet = ''01'', density = 7 / 10, cellSize = 12, color = ''#00ff9f'',
       bgColor = ''#0a0e27'', animationSpeed = 50, pattern = ''rain'', gradient = True,
       glowEffect = True, shapeInfluence = 8 / 10, gradientStrength = 8 / 10,
       glowIntensity = 10, glowRadius = 10 \<rparr>"

section \<open>Number formatting\<close>

definition digitChar :: "nat \<Rightarrow> char" where
  "digitChar n = ''0123456789abcdef'' ! n"

text \<open>Decimal rendering of a non-negative integer, as a template literal does.\<close>

fun decimal :: "nat \<Rightarrow> string" where
  "decimal n = (if n < 10 then [digitChar n] else decimal (n div 10) @ [digitChar (n mod 10)])"

declare decimal.simps [simp del]

section \<open>Layer manager (hooks/useLayerManager.ts)\<close>

text \<open>
  The hook's three pieces of React state. Every operation reads the state of the current
  render and queues the new one; the model passes the state explicitly.
\<close>

record LayerManager =
  layers :: "Layer list"
  activeLayerId :: string
  expandedLayerIds :: "string set"

definition createDefaultLayerConfig :: LayerConfig where
  "createDefaultLayerConfig = DEFAULT_LAYER_CONFIG"

definition initialLayerManager :: LayerManager where
  "initialLayerManager =
     \<lparr> layers = [\<lparr> layer_id = ''layer-1'', name = ''Layer 1'', visible = True, opacity = 1,
                    config = createDefaultLayerConfig, shapeImage = None, shapeData = None \<rparr>],
       activeLayerId = ''layer-1'',
       expandedLayerIds = {''layer-1''} \<rparr>"

text \<open>
  \<open>activeLayer = layers.find(l => l.id === activeLayerId) || layers[0]\<close>; \<open>None\<close> is
  \<open>undefined\<close> (an empty list).
\<close>

definition activeLayer :: "LayerManager \<Rightarrow> Layer option" where
  "activeLayer m =
     (case find (\<lambda>l. layer_id l = activeLayerId m) (layers m) of
        Some l \<Rightarrow> Some l
      | None \<Rightarrow> (case layers m of [] \<Rightarrow> None | l # _ \<Rightarrow> Some l))"

text \<open>\<open>addLayer\<close>; the argument is the value \<open>Date.now()\<close> returns during the call.\<close>

definition addLayer :: "nat \<Rightarrow> LayerManager \<Rightarrow> LayerManager" where
  "addLayer now m =
     (if length (layers m) \<ge> 3 then m
      else
        let newId = ''layer-'' @ decimal now;
            newLayer = \<lparr> layer_id = newId,
                         name = ''Layer '' @ decimal (length (layers m) + 1),
                         visible = True, opacity = 1,
                         config = createDefaultLayerConfig,
                         shapeImage = None, shapeData = None \<rparr>
        in \<lparr> layers = layers m @ [newLayer],
             activeLayerId = newId,
             expandedLayerIds = expandedLayerIds m \<union> {newId} \<rparr>)"

text \<open>
  \<open>removeLayer\<close>. \<open>setLayers(newLayers)\<close> is queued before \<open>newLayers[0].id\<close> is read, so when
  the filter leaves nothing the new layer list is already set and the read of \<open>.id\<close> on
  \<open>undefined\<close> throws; the second component is the exception the call ends with.
\<close>

definition removeLayer :: "string \<Rightarrow> LayerManager \<Rightarrow> LayerManager \<times> js_error option" where
  "removeLayer layerId m =
     (if length (layers m) = 1 then (m, None)
      else
        let newLayers = filter (\<lambda>l. layer_id l \<noteq> layerId) (layers m);
            m1 = m\<lparr>layers := newLayers\<rparr>
        in if activeLayerId m = layerId \<and> newLayers = [] then (m1, Some TypeError)
           else
             let m2 = (if activeLayerId m = layerId
                       then m1\<lparr>activeLayerId := layer_id (hd newLayers)\<rparr> else m1)
             in (m2\<lparr>expandedLayerIds := expandedLayerIds m - {layerId}\<rparr>, None))"

text \<open>A \<open>Partial<LayerConfig>\<close>: each field is either named in the update or absent.\<close>

record ConfigUpdate =
  u_symbolSet :: "string option"
  u_density :: "real option"
  u_cellSize :: "real option"
  u_color :: "string option"
  u_bgColor :: "string option"
  u_animationSpeed :: "real option"
  u_pattern :: "string option"
  u_gradient :: "bool option"
  u_glowEffect :: "bool option"
  u_shapeInfluence :: "real option"
  u_gradientStrength :: "real option"
  u_glowIntensity :: "real option"
  u_glowRadius :: "real option"

definition orElse :: "'a option \<Rightarrow> 'a \<Rightarrow> 'a" where
  "orElse u v = (case u of None \<Rightarrow> v | Some w \<Rightarrow> w)"

text \<open>The object spread \<open>{ ...layer.config, ...configUpdate }\<close>.\<close>

definition spreadConfig :: "LayerConfig \<Rightarrow> ConfigUpdate \<Rightarrow> LayerConfig" where
  "spreadConfig c u =
     \<lparr> symbolSet = orElse (u_symbolSet u) (symbolSet c),
       density = orElse (u_density u) (density c),
       cellSize = orElse (u_cellSize u) (cellSize c),
       color = orElse (u_color u) (color c),
       bgColor = orElse (u_bgColor u) (bgColor c),
       animationSpeed = orElse (u_animationSpeed u) (animationSpeed c),
       pattern = orElse (u_pattern u) (pattern c),
       gradient = orElse (u_gradient u) (gradient c),
       glowEffect = orElse (u_glowEffect u) (glowEffect c),
       shapeInfluence = orElse (u_shapeInfluence u) (shapeInfluence c),
       gradientStrength = orElse (u_gradientStrength u) (gradientStrength c),
       glowIntensity = orElse (u_glowIntensity u) (glowIntensity c),
       glowRadius = orElse (u_glowRadius u) (glowRadius c) \<rparr>"

definition updateActiveLayerConfig :: "ConfigUpdate \<Rightarrow> LayerManager \<Rightarrow> LayerManager" where
  "updateActiveLayerConfig configUpdate m =
     m\<lparr>layers := map (\<lambda>layer. if layer_id layer = activeLayerId m
                                then layer\<lparr>config := spreadConfig (config layer) configUpdate\<rparr>
                                else layer) (layers m)\<rparr>"

section \<open>Frame scheduler (hooks/useCanvasAnimation.ts)\<close>

text \<open>
  \<open>frameCounterRef\<close>, the displayed \<open>currentFrame\<close> and \<open>isAnimating\<close>. The callback
  \<open>onRenderFrame\<close> acts on whatever it renders to, here a state of type \<^typ>\<open>'w\<close>.
\<close>

record Animation =
  frameCounter :: int
  currentFrame :: int
  isAnimating :: bool

definition toggleAnimation :: "Animation \<Rightarrow> Animation" where
  "toggleAnimation a = a\<lparr>isAnimating := \<not> isAnimating a\<rparr>"

definition stepFrame ::
  "(int \<Rightarrow> 'w \<Rightarrow> 'w) \<Rightarrow> int \<Rightarrow> Animation \<times> 'w \<Rightarrow> Animation \<times> 'w" where
  "stepFrame onRenderFrame direction s =
     (let a = fst s; w = snd s;
          a1 = a\<lparr>frameCounter := frameCounter a + direction\<rparr>;
          a2 = a1\<lparr>currentFrame := frameCounter a1\<rparr>
      in (a2, onRenderFrame (frameCounter a2) w))"

section \<open>Arithmetic of the source\<close>

text \<open>
  A number that may be \<open>NaN\<close>: the only source of \<open>NaN\<close> the renderers can meet is a read of
  a missing entry of a brightness row, which yields \<open>undefined\<close> and then \<open>NaN\<close> in arithmetic.
\<close>

datatype num = Num real | NaN

text \<open>
  A grid dimension \<open>Math.floor(extent / cellSize)\<close>. Division by a zero cell size gives
  \<open>Infinity\<close> in the source (the callers return early when the extent is \<open>0\<close>, so
  \<open>0 / 0\<close> does not arise).
\<close>

datatype dim = Finite int | Infinity

definition gridDim :: "nat \<Rightarrow> real \<Rightarrow> dim" where
  "gridDim extent cell = (if cell = 0 then Infinity else Finite \<lfloor>real extent / cell\<rfloor>)"

text \<open>
  The operator \<open>%\<close> truncates towards zero: the result has the sign of the dividend.
  A zero divisor gives \<open>NaN\<close>, here \<open>None\<close>.
\<close>

definition tmod :: "int \<Rightarrow> int \<Rightarrow> int" where
  "tmod a b = sgn a * (\<bar>a\<bar> mod \<bar>b\<bar>)"

definition js_rem :: "int option \<Rightarrow> int \<Rightarrow> int option" where
  "js_rem a b = (case a of None \<Rightarrow> None | Some k \<Rightarrow> if b = 0 then None else Some (tmod k b))"

text \<open>
  \<open>randomSeeds[index]\<close> followed by a property read: an index that is \<open>NaN\<close>, negative or
  past the end yields \<open>undefined\<close>, and reading \<open>.r1\<close> of it throws.
\<close>

definition seedAt :: "RandomSeed list \<Rightarrow> int option \<Rightarrow> js_error + RandomSeed" where
  "seedAt seeds ix =
     (case ix of
        None \<Rightarrow> Inl TypeError
      | Some k \<Rightarrow> if 0 \<le> k \<and> k < int (length seeds) then Inr (seeds ! nat k) else Inl TypeError)"

text \<open>
  \<open>layerSymbols[Math.floor(r * layerSymbols.length)]\<close>; \<open>None\<close> is \<open>undefined\<close>, which
  \<open>fillText\<close> is then called with.
\<close>

definition symbolAt :: "string \<Rightarrow> real \<Rightarrow> char option" where
  "symbolAt layerSymbols r =
     (let k = \<lfloor>r * real (length layerSymbols)\<rfloor>
      in if 0 \<le> k \<and> k < int (length layerSymbols) then Some (layerSymbols ! nat k) else None)"

section \<open>Colour utilities (utils/colorUtils.ts)\<close>

text \<open>\<open>offset = Math.floor((gridDim - shapeDim) / 2)\<close>; \<open>None\<close> is \<open>Infinity\<close>.\<close>

definition centreOffset :: "dim \<Rightarrow> int \<Rightarrow> int option" where
  "centreOffset d shapeDim = (case d of Infinity \<Rightarrow> None | Finite n \<Rightarrow> Some ((n - shapeDim) div 2))"

text \<open>\<open>p - offset < 0 || p - offset >= shapeDim\<close>; with an infinite offset the difference is \<open>-Infinity\<close>.\<close>

definition outsideAxis :: "int \<Rightarrow> int option \<Rightarrow> int \<Rightarrow> bool" where
  "outsideAxis p off shapeDim =
     (case off of None \<Rightarrow> True | Some k \<Rightarrow> p - k < 0 \<or> p - k \<ge> shapeDim)"

definition getShapeBrightnessForLayer ::
  "int \<Rightarrow> int \<Rightarrow> dim \<Rightarrow> dim \<Rightarrow> Layer \<Rightarrow> js_error + num" where
  "getShapeBrightnessForLayer px py cols rows layer =
     (case shapeData layer of
        None \<Rightarrow> Inr (Num 1)
      | Some grid \<Rightarrow>
          (case grid of
             [] \<Rightarrow> Inl TypeError
           | row0 # _ \<Rightarrow>
               let shapeWidth = int (length row0);
                   shapeHeight = int (length grid);
                   offsetX = centreOffset cols shapeWidth;
                   offsetY = centreOffset rows shapeHeight
               in if outsideAxis px offsetX shapeWidth \<or> outsideAxis py offsetY shapeHeight
                  then Inr (Num (1 - shapeInfluence (config layer)))
                  else
                    let shapeX = nat (px - the offsetX);
                        shapeY = nat (py - the offsetY);
                        row = grid ! shapeY
                    in if shapeX < length row
                       then Inr (Num (row ! shapeX * shapeInfluence (config layer)
                                      + (1 - shapeInfluence (config layer))))
                       else Inr NaN))"

fun hexDigits :: "nat \<Rightarrow> string" where
  "hexDigits n = (if n < 16 then [digitChar n] else hexDigits (n div 16) @ [digitChar (n mod 16)])"

declare hexDigits.simps [simp del]

definition toString16 :: "int \<Rightarrow> string" where
  "toString16 n = (if n < 0 then ''-'' @ hexDigits (nat (- n)) else hexDigits (nat n))"

definition padStart2 :: "string \<Rightarrow> string" where
  "padStart2 s = replicate (2 - length s) (CHR ''0'') @ s"

definition brightnessToHex :: "real \<Rightarrow> string" where
  "brightnessToHex brightness = padStart2 (toString16 \<lfloor>brightness * 255\<rfloor>)"

definition calculateGlowBlur :: "real \<Rightarrow> real \<Rightarrow> real \<Rightarrow> int" where
  "calculateGlowBlur intensity brightness radius =
     \<lfloor>intensity * brightness * (radius / 10)\<rfloor>"

section \<open>Drawing surfaces\<close>

text \<open>
  A 2D context is represented by the calls made on it, in order. The pixels of a canvas
  are a function of that sequence, so equal sequences give equal images.
\<close>

datatype ctx_call =
    ClearRect real real real real
  | SetFont real
  | SetTextAlign string
  | SetTextBaseline string
  | SetShadowColor string
  | SetFillStyle string
  | SetShadowBlur int
  | FillText "char option" real real

text \<open>The calls so far, and the renderer's local \<open>currentShadowBlur\<close>.\<close>

type_synonym surface = "ctx_call list \<times> int"

text \<open>
  A \<open>forEach\<close> or \<open>for\<close> loop whose body may throw: the loop stops at the first exception,
  keeping the effects so far.
\<close>

fun forEach :: "('a \<Rightarrow> 's \<Rightarrow> 's \<times> js_error option) \<Rightarrow> 'a list \<Rightarrow> 's \<Rightarrow> 's \<times> js_error option" where
  "forEach body [] s = (s, None)"
| "forEach body (x # xs) s =
     (case body x s of
        (s', Some e) \<Rightarrow> (s', Some e)
      | (s', None) \<Rightarrow> forEach body xs s')"

section \<open>Pattern renderers (utils/renderPatterns.ts)\<close>

text \<open>
  \<open>cols\<close> and \<open>rows\<close> of the parameters come from one cell size, so they are both finite
  or (for a zero cell size) both \<open>Infinity\<close>.
\<close>

datatype grid = Grid int int | Unbounded

definition colsOf :: "grid \<Rightarrow> dim" where
  "colsOf g = (case g of Grid c r \<Rightarrow> Finite c | Unbounded \<Rightarrow> Infinity)"

definition rowsOf :: "grid \<Rightarrow> dim" where
  "rowsOf g = (case g of Grid c r \<Rightarrow> Finite r | Unbounded \<Rightarrow> Infinity)"

record RenderPatternParams =
  p_layer :: Layer
  p_grid :: grid
  p_cellSize :: real
  p_frame :: int
  p_randomSeeds :: "RandomSeed list"

definition halfCellOf :: "real \<Rightarrow> int" where
  "halfCellOf cs = \<lfloor>cs / 2\<rfloor>"

text \<open>
  The block every renderer repeats once a cell's brightness is known: set the fill style,
  and set the blur only when it differs from the last one applied.
\<close>

definition applyBrightness :: "LayerConfig \<Rightarrow> real \<Rightarrow> surface \<Rightarrow> surface" where
  "applyBrightness layerConfig brightness s =
     (let targetBlur = (if glowEffect layerConfig
                        then calculateGlowBlur (glowIntensity layerConfig) brightness
                               (glowRadius layerConfig)
                        else 0)
      in (fst s @ [SetFillStyle (color layerConfig @ brightnessToHex brightness)]
                @ (if snd s \<noteq> targetBlur then [SetShadowBlur targetBlur] else []),
          targetBlur))"

text \<open>What a grid renderer decides for one cell that it draws.\<close>

record CellDraw =
  cd_brightness :: real
  cd_symbol :: "char option"
  cd_x :: real
  cd_y :: real

definition drawCell :: "LayerConfig \<Rightarrow> CellDraw \<Rightarrow> surface \<Rightarrow> surface" where
  "drawCell layerConfig d s =
     (let s1 = applyBrightness layerConfig (cd_brightness d) s
      in (fst s1 @ [FillText (cd_symbol d) (cd_x d) (cd_y d)], snd s1))"

definition gridCells :: "int \<Rightarrow> int \<Rightarrow> (int \<times> int) list" where
  "gridCells c r = concat (map (\<lambda>i. map (\<lambda>j. (int i, int j)) [0..<nat r]) [0..<nat c])"

definition beginPattern :: "LayerConfig \<Rightarrow> ctx_call list \<Rightarrow> surface" where
  "beginPattern layerConfig ctx =
     (if glowEffect layerConfig then ctx @ [SetShadowColor (color layerConfig)] else ctx, - 1)"

text \<open>
  The two nested loops of the wave, static, glitch and pulse renderers. With unbounded
  dimensions the first cell's seed index is \<open>0 * Infinity + 0 = NaN\<close> and the seed read
  throws before anything is drawn.
\<close>

definition renderGrid ::
  "RenderPatternParams \<Rightarrow> (int \<Rightarrow> int \<Rightarrow> int \<Rightarrow> int \<Rightarrow> js_error + CellDraw option)
     \<Rightarrow> ctx_call list \<Rightarrow> ctx_call list \<times> js_error option" where
  "renderGrid params cell ctx =
     (let layerConfig = config (p_layer params);
          s0 = beginPattern layerConfig ctx
      in case p_grid params of
           Unbounded \<Rightarrow> (fst s0, Some TypeError)
         | Grid c r \<Rightarrow>
             (case forEach
                     (\<lambda>ij s. case cell c r (fst ij) (snd ij) of
                                Inl e \<Rightarrow> (s, Some e)
                              | Inr None \<Rightarrow> (s, None)
                              | Inr (Some d) \<Rightarrow> (drawCell layerConfig d s, None))
                     (gridCells c r) s0 of
                (s, e) \<Rightarrow> (fst s, e)))"

subsection \<open>Rain\<close>

text \<open>\<open>y >= rows\<close>.\<close>

definition atLeastDim :: "real \<Rightarrow> dim \<Rightarrow> bool" where
  "atLeastDim v d = (case d of Infinity \<Rightarrow> False | Finite n \<Rightarrow> v \<ge> real_of_int n)"

definition rainBrightness :: "LayerConfig \<Rightarrow> nat \<Rightarrow> real \<Rightarrow> num \<Rightarrow> num" where
  "rainBrightness layerConfig j len sb =
     (case sb of
        NaN \<Rightarrow> NaN
      | Num shapeBrightness \<Rightarrow>
          let alpha = (1 - real j / len) * shapeBrightness
          in Num (if gradient layerConfig
                  then alpha * gradientStrength layerConfig + (1 - gradientStrength layerConfig)
                  else shapeBrightness))"

definition rainTrail ::
  "RenderPatternParams \<Rightarrow> Drop \<Rightarrow> nat \<Rightarrow> surface \<Rightarrow> surface \<times> js_error option" where
  "rainTrail params d j s =
     (let layer = p_layer params; layerConfig = config layer;
          cols = colsOf (p_grid params); rows = rowsOf (p_grid params);
          dropX = drop_x d;
          y = drop_y d - real j
      in if y < 0 \<or> atLeastDim y rows then (s, None)
         else
           let yInt = \<lfloor>y\<rfloor>
           in case getShapeBrightnessForLayer dropX yInt cols rows layer of
                Inl e \<Rightarrow> (s, Some e)
              | Inr sb \<Rightarrow>
                  (case rainBrightness layerConfig j (drop_length d) sb of
                     NaN \<Rightarrow> (s, None)
                   | Num brightness \<Rightarrow>
                       if brightness > 1 / 10 then
                         let s1 = applyBrightness layerConfig brightness s
                         in case seedAt (p_randomSeeds params)
                                   (js_rem (Some (dropX + yInt)) (int (length (p_randomSeeds params)))) of
                              Inl e \<Rightarrow> (s1, Some e)
                            | Inr seed \<Rightarrow>
                                ((fst s1 @ [FillText (symbolAt (symbolSet layerConfig) (r1 seed))
                                              (real_of_int dropX * p_cellSize params
                                                 + real_of_int (halfCellOf (p_cellSize params)))
                                              (real_of_int yInt * p_cellSize params
                                                 + real_of_int (halfCellOf (p_cellSize params)))],
                                  snd s1), None)
                       else (s, None)))"

text \<open>\<open>for (let j = 0; j < drop.length; j++)\<close> runs for the integers below \<open>drop.length\<close>.\<close>

definition renderRainPattern ::
  "RenderPatternParams \<Rightarrow> Drop list \<Rightarrow> ctx_call list \<Rightarrow> ctx_call list \<times> js_error option" where
  "renderRainPattern params drops ctx =
     (case forEach
             (\<lambda>d s. forEach (rainTrail params d) [0..<nat \<lceil>drop_length d\<rceil>] s)
             drops (beginPattern (config (p_layer params)) ctx) of
        (s, e) \<Rightarrow> (fst s, e))"

subsection \<open>Wave\<close>

definition waveAlpha :: "int \<Rightarrow> int \<Rightarrow> int \<Rightarrow> real" where
  "waveAlpha frame i j =
     (sin ((real_of_int i + real_of_int frame * (1 / 10)) * (3 / 10))
        * cos ((real_of_int j + real_of_int frame * (1 / 10)) * (3 / 10)) + 1) / 2"

text \<open>\<open>i * cellSize + halfCell\<close>, the drawing coordinate of column or row \<open>i\<close>.\<close>

definition cellCentre :: "real \<Rightarrow> int \<Rightarrow> real" where
  "cellCentre cs i = real_of_int i * cs + real_of_int (halfCellOf cs)"

definition waveCell ::
  "RenderPatternParams \<Rightarrow> int \<Rightarrow> int \<Rightarrow> int \<Rightarrow> int \<Rightarrow> js_error + CellDraw option" where
  "waveCell params cols rows i j =
     (let layer = p_layer params; layerConfig = config layer; seeds = p_randomSeeds params
      in case getShapeBrightnessForLayer i j (Finite cols) (Finite rows) layer of
           Inl e \<Rightarrow> Inl e
         | Inr sb \<Rightarrow>
             (case seedAt seeds (js_rem (Some (i * rows + j)) (int (length seeds))) of
                Inl e \<Rightarrow> Inl e
              | Inr seed \<Rightarrow>
                  (case sb of
                     NaN \<Rightarrow> Inr None
                   | Num shapeBrightness \<Rightarrow>
                       let alpha = waveAlpha (p_frame params) i j * shapeBrightness
                       in if r1 seed < density layerConfig * alpha
                          then Inr (Some
                                 \<lparr> cd_brightness =
                                     (if gradient layerConfig
                                      then alpha * gradientStrength layerConfig
                                             + (1 - gradientStrength layerConfig) * shapeBrightness
                                      else shapeBrightness),
                                   cd_symbol = symbolAt (symbolSet layerConfig) (r2 seed),
                                   cd_x = cellCentre (p_cellSize params) i,
                                   cd_y = cellCentre (p_cellSize params) j \<rparr>)
                          else Inr None)))"

definition renderWavePattern ::
  "RenderPatternParams \<Rightarrow> ctx_call list \<Rightarrow> ctx_call list \<times> js_error option" where
  "renderWavePattern params ctx = renderGrid params (waveCell params) ctx"

subsection \<open>Static\<close>

text \<open>Addition of two numbers either of which may be \<open>NaN\<close>.\<close>

definition addNum :: "int option \<Rightarrow> int option \<Rightarrow> int option" where
  "addNum a b = (case a of None \<Rightarrow> None | Some k \<Rightarrow> (case b of None \<Rightarrow> None | Some l \<Rightarrow> Some (k + l)))"

definition staticCell ::
  "RenderPatternParams \<Rightarrow> int \<Rightarrow> int \<Rightarrow> int \<Rightarrow> int \<Rightarrow> js_error + CellDraw option" where
  "staticCell params cols rows i j =
     (let layer = p_layer params; layerConfig = config layer; seeds = p_randomSeeds params;
          n = int (length seeds);
          frameOffset = js_rem (Some (p_frame params * 17)) n
      in case getShapeBrightnessForLayer i j (Finite cols) (Finite rows) layer of
           Inl e \<Rightarrow> Inl e
         | Inr sb \<Rightarrow>
             (let baseSeedIndex = js_rem (Some (i * rows + j)) n;
                  seedIndex = js_rem (addNum baseSeedIndex frameOffset) n
              in (case seedAt seeds seedIndex of
                    Inl e \<Rightarrow> Inl e
                  | Inr seed \<Rightarrow>
                      (case sb of
                         NaN \<Rightarrow> Inr None
                       | Num shapeBrightness \<Rightarrow>
                           if r1 seed < density layerConfig * shapeBrightness
                           then Inr (Some
                                  \<lparr> cd_brightness =
                                      (if gradient layerConfig
                                       then r2 seed * shapeBrightness * gradientStrength layerConfig
                                              + (1 - gradientStrength layerConfig) * shapeBrightness
                                       else shapeBrightness),
                                    cd_symbol = symbolAt (symbolSet layerConfig) (r3 seed),
                                    cd_x = cellCentre (p_cellSize params) i,
                                    cd_y = cellCentre (p_cellSize params) j \<rparr>)
                           else Inr None))))"

definition renderStaticPattern ::
  "RenderPatternParams \<Rightarrow> ctx_call list \<Rightarrow> ctx_call list \<times> js_error option" where
  "renderStaticPattern params ctx = renderGrid params (staticCell params) ctx"

subsection \<open>Glitch\<close>

definition isGlitching :: "int \<Rightarrow> bool" where
  "isGlitching frame =
     (let glitchCycle = tmod frame 80
      in glitchCycle < 5 \<or> (glitchCycle > 30 \<and> glitchCycle < 35))"

definition glitchIntensity :: "int \<Rightarrow> real" where
  "glitchIntensity frame =
     (if isGlitching frame then (sin (real_of_int frame * (1 / 2)) + 1) / 2 else 0)"

text \<open>\<open>offsetX\<close> and \<open>offsetY\<close> of one cell, whose seed index is \<open>seedIndex\<close>.\<close>

definition glitchOffset :: "RandomSeed list \<Rightarrow> int \<Rightarrow> int option \<Rightarrow> js_error + real \<times> real" where
  "glitchOffset seeds frame seedIndex =
     (if isGlitching frame then
        (case seedAt seeds (js_rem (addNum seedIndex (Some frame)) (int (length seeds))) of
           Inl e \<Rightarrow> Inl e
         | Inr g \<Rightarrow>
             if r1 g < 15 / 100
             then Inr ((r2 g - 1 / 2) * 30 * glitchIntensity frame,
                       (r3 g - 1 / 2) * 10 * glitchIntensity frame)
             else Inr (0, 0))
      else Inr (0, 0))"

definition glitchCell ::
  "RenderPatternParams \<Rightarrow> int \<Rightarrow> int \<Rightarrow> int \<Rightarrow> int \<Rightarrow> js_error + CellDraw option" where
  "glitchCell params cols rows i j =
     (let layer = p_layer params; layerConfig = config layer; seeds = p_randomSeeds params
      in case getShapeBrightnessForLayer i j (Finite cols) (Finite rows) layer of
           Inl e \<Rightarrow> Inl e
         | Inr sb \<Rightarrow>
             (let seedIndex = js_rem (Some (i * rows + j)) (int (length seeds))
              in (case glitchOffset seeds (p_frame params) seedIndex of
                    Inl e \<Rightarrow> Inl e
                  | Inr off \<Rightarrow>
                      (case seedAt seeds seedIndex of
                         Inl e \<Rightarrow> Inl e
                       | Inr seed \<Rightarrow>
                           (case sb of
                              NaN \<Rightarrow> Inr None
                            | Num shapeBrightness \<Rightarrow>
                                if r2 seed < density layerConfig * shapeBrightness
                                then Inr (Some
                                       \<lparr> cd_brightness =
                                           (if gradient layerConfig
                                            then (1 / 2 + r3 seed * (1 / 2)) * shapeBrightness
                                                     * gradientStrength layerConfig
                                                   + (1 - gradientStrength layerConfig) * shapeBrightness
                                            else shapeBrightness),
                                         cd_symbol = symbolAt (symbolSet layerConfig) (r1 seed),
                                         cd_x = cellCentre (p_cellSize params) i + fst off,
                                         cd_y = cellCentre (p_cellSize params) j + snd off \<rparr>)
                                else Inr None)))))"

definition renderGlitchPattern ::
  "RenderPatternParams \<Rightarrow> ctx_call list \<Rightarrow> ctx_call list \<times> js_error option" where
  "renderGlitchPattern params ctx = renderGrid params (glitchCell params) ctx"

subsection \<open>Pulse\<close>

text \<open>
  \<open>maxDist\<close> is \<open>0\<close> only when \<open>cols\<close> and \<open>rows\<close> are both \<open>0\<close>, and then there is no cell:
  the division below is never by zero for a cell of the grid.
\<close>

definition pulseLevel :: "int \<Rightarrow> int \<Rightarrow> int \<Rightarrow> int \<Rightarrow> int \<Rightarrow> real" where
  "pulseLevel frame cols rows i j =
     (let pulse = (sin (real_of_int frame * (5 / 100)) + 1) / 2;
          centerX = real_of_int cols / 2;
          centerY = real_of_int rows / 2;
          maxDist = sqrt (centerX * centerX + centerY * centerY);
          dx = real_of_int i - centerX;
          dy = real_of_int j - centerY;
          dist = sqrt (dx * dx + dy * dy);
          normalizedDist = dist / maxDist
      in (1 - normalizedDist) * pulse)"

definition pulseCell ::
  "RenderPatternParams \<Rightarrow> int \<Rightarrow> int \<Rightarrow> int \<Rightarrow> int \<Rightarrow> js_error + CellDraw option" where
  "pulseCell params cols rows i j =
     (let layer = p_layer params; layerConfig = config layer; seeds = p_randomSeeds params
      in case getShapeBrightnessForLayer i j (Finite cols) (Finite rows) layer of
           Inl e \<Rightarrow> Inl e
         | Inr sb \<Rightarrow>
             (case seedAt seeds (js_rem (Some (i * rows + j)) (int (length seeds))) of
                Inl e \<Rightarrow> Inl e
              | Inr seed \<Rightarrow>
                  (case sb of
                     NaN \<Rightarrow> Inr None
                   | Num shapeBrightness \<Rightarrow>
                       let level = pulseLevel (p_frame params) cols rows i j
                       in if r1 seed < density layerConfig * level * shapeBrightness
                          then Inr (Some
                                 \<lparr> cd_brightness =
                                     (if gradient layerConfig
                                      then level * shapeBrightness * gradientStrength layerConfig
                                             + (1 - gradientStrength layerConfig) * shapeBrightness
                                      else shapeBrightness),
                                   cd_symbol = symbolAt (symbolSet layerConfig) (r2 seed),
                                   cd_x = cellCentre (p_cellSize params) i,
                                   cd_y = cellCentre (p_cellSize params) j \<rparr>)
                          else Inr None)))"

definition renderPulsePattern ::
  "RenderPatternParams \<Rightarrow> ctx_call list \<Rightarrow> ctx_call list \<times> js_error option" where
  "renderPulsePattern params ctx = renderGrid params (pulseCell params) ctx"

section \<open>Layer compositor (hooks/useCanvasRenderer.ts)\<close>

text \<open>
  What the hook finds around it: whether the canvas element is mounted, whether
  \<open>getContext('2d')\<close> yields a context for the main canvas and for an offscreen one, and the
  canvas size.
\<close>

record Env =
  canvasMounted :: bool
  mainContext :: bool
  layerContext :: bool
  canvasWidth :: nat
  canvasHeight :: nat

text \<open>
  The source of \<open>Math.random()\<close>: the values the next calls will return, each in \<open>[0, 1)\<close>.
\<close>

type_synonym rng = "nat \<Rightarrow> real"

datatype main_call =
    MainFillStyle string
  | MainFillRect real real real real
  | MainGlobalAlpha real
  | MainDrawImage "ctx_call list"

text \<open>Everything a composite pass can change: the main canvas, the shared drops, the random source.\<close>

record World =
  mainCalls :: "main_call list"
  drops :: "Drop list"
  random :: rng

definition gridOf :: "Env \<Rightarrow> real \<Rightarrow> grid" where
  "gridOf env cs =
     (if cs = 0 then Unbounded
      else Grid \<lfloor>real (canvasWidth env) / cs\<rfloor> \<lfloor>real (canvasHeight env) / cs\<rfloor>)"

text \<open>
  \<open>renderLayerToCanvas\<close>, on the fresh offscreen canvas of one layer: the calls made on its
  context and the exception, if one is thrown.
\<close>

definition renderLayerToCanvas ::
  "Env \<Rightarrow> Drop list \<Rightarrow> RandomSeed list \<Rightarrow> Layer \<Rightarrow> int \<Rightarrow> ctx_call list \<times> js_error option" where
  "renderLayerToCanvas env ds seeds layer frame =
     (if \<not> layerContext env then ([], None)
      else if canvasWidth env = 0 \<or> canvasHeight env = 0 then ([], None)
      else
        let layerConfig = config layer;
            ctx = [ClearRect 0 0 (real (canvasWidth env)) (real (canvasHeight env)),
                   SetFont (cellSize layerConfig - 2),
                   SetTextAlign ''center'',
                   SetTextBaseline ''middle''];
            renderParams = \<lparr> p_layer = layer, p_grid = gridOf env (cellSize layerConfig),
                             p_cellSize = cellSize layerConfig, p_frame = frame,
                             p_randomSeeds = seeds \<rparr>
        in if pattern layerConfig = ''rain'' then renderRainPattern renderParams ds ctx
           else if pattern layerConfig = ''wave'' then renderWavePattern renderParams ctx
           else if pattern layerConfig = ''static'' then renderStaticPattern renderParams ctx
           else if pattern layerConfig = ''glitch'' then renderGlitchPattern renderParams ctx
           else if pattern layerConfig = ''pulse'' then renderPulsePattern renderParams ctx
           else (ctx, None))"

text \<open>The body of \<open>visibleLayers.forEach\<close>.\<close>

definition compositeLayer ::
  "Env \<Rightarrow> RandomSeed list \<Rightarrow> int \<Rightarrow> Layer \<Rightarrow> World \<Rightarrow> World \<times> js_error option" where
  "compositeLayer env seeds frame layer w =
     (case renderLayerToCanvas env (drops w) seeds layer frame of
        (offscreen, Some e) \<Rightarrow> (w, Some e)
      | (offscreen, None) \<Rightarrow>
          (w\<lparr>mainCalls := mainCalls w @ [MainGlobalAlpha (opacity layer),
                                          MainDrawImage offscreen,
                                          MainGlobalAlpha 1]\<rparr>, None))"

text \<open>\<open>drop.y > rows + drop.length\<close>.\<close>

definition beyond :: "real \<Rightarrow> dim \<Rightarrow> real \<Rightarrow> bool" where
  "beyond v rows len = (case rows of Infinity \<Rightarrow> False | Finite n \<Rightarrow> v > real_of_int n + len)"

text \<open>The body of \<open>drops.forEach\<close> at the end of a pass, for one drop.\<close>

definition advanceDrop :: "dim \<Rightarrow> Drop \<Rightarrow> rng \<Rightarrow> Drop \<times> rng" where
  "advanceDrop rows d g =
     (let y1 = drop_y d + drop_speed d * (3 / 10)
      in if beyond y1 rows (drop_length d)
         then (d\<lparr>drop_y := - drop_length d, drop_speed := 1 / 2 + g 0 * (3 / 2)\<rparr>,
               \<lambda>n. g (Suc n))
         else (d\<lparr>drop_y := y1\<rparr>, g))"

fun updateDrops :: "dim \<Rightarrow> Drop list \<Rightarrow> rng \<Rightarrow> Drop list \<times> rng" where
  "updateDrops rows [] g = ([], g)"
| "updateDrops rows (d # ds) g =
     (case advanceDrop rows d g of
        (d', g') \<Rightarrow> (case updateDrops rows ds g' of (ds', g'') \<Rightarrow> (d' # ds', g'')))"

text \<open>
  How a call of \<open>renderFrame\<close> ends: by one of its early returns, after the last statement,
  or with an exception.
\<close>

datatype pass = Skipped | Completed | Aborted js_error

definition backgroundOf :: "Layer list \<Rightarrow> string" where
  "backgroundOf ls =
     (case ls of
        [] \<Rightarrow> ''#0a0e27''
      | bottomLayer # _ \<Rightarrow>
          if bgColor (config bottomLayer) = [] then ''#0a0e27'' else bgColor (config bottomLayer))"

text \<open>
  \<open>renderFrame\<close>. The fourth argument is the hook's \<open>cellSize\<close> parameter (the active layer's
  cell size), used for the drop update only.
\<close>

definition renderFrame ::
  "Env \<Rightarrow> Layer list \<Rightarrow> RandomSeed list \<Rightarrow> real \<Rightarrow> int \<Rightarrow> World \<Rightarrow> World \<times> pass" where
  "renderFrame env ls seeds cs frame w =
     (if \<not> canvasMounted env then (w, Skipped)
      else if \<not> mainContext env then (w, Skipped)
      else if canvasWidth env = 0 \<or> canvasHeight env = 0 then (w, Skipped)
      else
        let w1 = w\<lparr>mainCalls := mainCalls w @
                      [MainFillStyle (backgroundOf ls),
                       MainFillRect 0 0 (real (canvasWidth env)) (real (canvasHeight env))]\<rparr>;
            visibleLayers = filter visible ls
        in case forEach (compositeLayer env seeds frame) visibleLayers w1 of
             (w2, Some e) \<Rightarrow> (w2, Aborted e)
           | (w2, None) \<Rightarrow>
               (case updateDrops (gridDim (canvasHeight env) cs) (drops w2) (random w2) of
                  (ds, g) \<Rightarrow> (w2\<lparr>drops := ds, random := g\<rparr>, Completed)))"

section \<open>Example inputs\<close>

text \<open>A 12 by 24 canvas; with a cell size of 12 it holds one column of two cells.\<close>

abbreviation (input) passEnv :: Env where
  "passEnv \<equiv> \<lparr>canvasMounted = True, mainContext = True, layerContext = True,
               canvasWidth = 12, canvasHeight = 24\<rparr>"

abbreviation (input) rainLayers :: "Layer list" where
  "rainLayers \<equiv>
     [\<lparr>layer_id = ''layer-1'', name = ''Layer 1'', visible = True, opacity = 1,
        config = DEFAULT_LAYER_CONFIG, shapeImage = None, shapeData = None\<rparr>,
      \<lparr>layer_id = ''layer-2'', name = ''Layer 2'', visible = True, opacity = 1 / 2,
        config = DEFAULT_LAYER_CONFIG, shapeImage = None, shapeData = None\<rparr>]"

abbreviation (input) twoSeeds :: "RandomSeed list" where
  "twoSeeds \<equiv> [\<lparr>r1 = 1 / 4, r2 = 1 / 2, r3 = 3 / 4\<rparr>, \<lparr>r1 = 3 / 4, r2 = 1 / 4, r3 = 1 / 2\<rparr>]"

abbreviation (input) oneDrop :: World where
  "oneDrop \<equiv> \<lparr>mainCalls = [],
               drops = [\<lparr>drop_x = 0, drop_y = 1 / 2, drop_speed = 1, drop_length = 3 / 2\<rparr>],
               random = (\<lambda>n. 1 / 2)\<rparr>"

text \<open>A layer with a 2 by 2 brightness grid and a shape influence of 0.8.\<close>

abbreviation (input) shapedLayer :: Layer where
  "shapedLayer \<equiv>
     \<lparr>layer_id = ''layer-1'', name = ''Layer 1'', visible = True, opacity = 1,
       config = DEFAULT_LAYER_CONFIG\<lparr>shapeInfluence := 4 / 5\<rparr>, shapeImage = Some 0,
       shapeData = Some [[0, 1 / 2], [1, 1 / 4]]\<rparr>"



text \<open>
  A single cell rendered by the wave pattern at frame 0, under a 1 by 1 brightness grid of
  brightness 0 with a shape influence of 0.5 and a gradient strength of 1.
\<close>

abbreviation (input) waveParams :: RenderPatternParams where
  "waveParams \<equiv>
     \<lparr>p_layer = \<lparr>layer_id = ''layer-1'', name = ''Layer 1'', visible = True, opacity = 1,
                  config = DEFAULT_LAYER_CONFIG\<lparr>pattern := ''wave'', density := 1,
                             shapeInfluence := 1 / 2, gradientStrength := 1\<rparr>,
                  shapeImage = Some 0, shapeData = Some [[0]]\<rparr>,
       p_grid = Grid 1 1, p_cellSize = 12, p_frame = 0,
       p_randomSeeds = [\<lparr>r1 = 0, r2 = 0, r3 = 0\<rparr>]\<rparr>"

text \<open>Two visible layers whose bottom one has a red background.\<close>

abbreviation (input) redBottomLayers :: "Layer list" where
  "redBottomLayers \<equiv>
     [\<lparr>layer_id = ''layer-1'', name = ''Layer 1'', visible = True, opacity = 1,
        config = DEFAULT_LAYER_CONFIG\<lparr>bgColor := ''#ff0000''\<rparr>,
        shapeImage = None, shapeData = None\<rparr>,
      \<lparr>layer_id = ''layer-2'', name = ''Layer 2'', visible = True, opacity = 1 / 2,
        config = DEFAULT_LAYER_CONFIG, shapeImage = None, shapeData = None\<rparr>]"

section \<open>Layer manager: capacity\<close>

lemma decimal_small: "n < 10 \<Longrightarrow> decimal n = [digitChar n]"
  by (subst decimal.simps) simp

lemma decimal_large: "\<not> n < 10 \<Longrightarrow> decimal n = decimal (n div 10) @ [digitChar (n mod 10)]"
  by (subst decimal.simps) simp

lemma decimal_timestamp: "decimal 1730000000000 = ''1730000000000''"
  by (simp add: decimal_small decimal_large digitChar_def)

lemma addLayer_full: "length (layers m) = 3 \<Longrightarrow> addLayer now m = m"
  by (simp add: addLayer_def)

lemma addLayer_length:
  "length (layers m) \<le> 3 \<Longrightarrow>
     1 \<le> length (layers (addLayer now m)) \<and> length (layers (addLayer now m)) \<le> 3"
  by (auto simp: addLayer_def Let_def)

lemma addLayer_keeps_ids_distinct:
  assumes "distinct (map layer_id (layers m))"
    and "''layer-'' @ decimal now \<notin> set (map layer_id (layers m))"
  shows "distinct (map layer_id (layers (addLayer now m)))"
  using assms by (simp add: addLayer_def Let_def)

lemma removeLayer_single: "length (layers m) = 1 \<Longrightarrow> removeLayer layerId m = (m, None)"
  by (simp add: removeLayer_def)

lemma filter_distinct_ids:
  "distinct (map layer_id ls) \<Longrightarrow> length ls \<le> Suc (length (filter (\<lambda>l. layer_id l \<noteq> i) ls))"
proof (induction ls)
  case Nil
  then show ?case by simp
next
  case (Cons l ls)
  show ?case
  proof (cases "layer_id l = i")
    case True
    from Cons.prems have notin: "layer_id l \<notin> set (map layer_id ls)" by simp
    have "\<forall>x \<in> set ls. layer_id x \<noteq> i"
    proof
      fix x assume "x \<in> set ls"
      then have "layer_id x \<in> set (map layer_id ls)" by simp
      with notin True show "layer_id x \<noteq> i" by metis
    qed
    then have "filter (\<lambda>l. layer_id l \<noteq> i) ls = ls" by (simp add: filter_id_conv)
    with True show ?thesis by simp
  next
    case False
    with Cons show ?thesis by simp
  qed
qed

text \<open>
  With pairwise distinct layer ids a removal takes at most one layer away, so the list
  stays within one to three layers, and the first remaining layer becomes active when
  the active one was removed.
\<close>

lemma removeLayer_distinct_ids:
  assumes "distinct (map layer_id (layers m))"
    and "1 \<le> length (layers m)" and "length (layers m) \<le> 3"
  shows "1 \<le> length (layers (fst (removeLayer layerId m)))
       \<and> length (layers (fst (removeLayer layerId m))) \<le> 3
       \<and> snd (removeLayer layerId m) = None
       \<and> (activeLayerId m = layerId \<and> length (layers m) \<noteq> 1 \<longrightarrow>
            activeLayerId (fst (removeLayer layerId m))
              = layer_id (hd (layers (fst (removeLayer layerId m)))))"
proof (cases "length (layers m) = 1")
  case True
  then show ?thesis by (simp add: removeLayer_def)
next
  case False
  let ?new = "filter (\<lambda>l. layer_id l \<noteq> layerId) (layers m)"
  from False assms(2) have "2 \<le> length (layers m)" by simp
  with filter_distinct_ids[OF assms(1), of layerId] have ne: "?new \<noteq> []" by auto
  have le: "length ?new \<le> 3"
    by (rule order_trans [OF length_filter_le assms(3)])
  from ne have "1 \<le> length ?new" by (cases ?new) auto
  with ne le False show ?thesis by (simp add: removeLayer_def Let_def)
qed

text \<open>
  C1. The layer list is meant to hold between one and three layers after every add and
  remove. Layer ids are \<open>layer-\<close> followed by the clock reading, so two layers added at the
  same reading share an id, and \<open>removeLayer\<close> filters by id after checking the length:
  starting from the initial state, two adds at one clock reading, the removal of
  \<open>layer-1\<close> and the removal of the shared id leave the list empty, and the call ends
  with the exception of reading \<open>newLayers[0].id\<close>.
\<close>

theorem removeLayer_shared_id_empties_list:
  "(let m1 = addLayer 1730000000000 initialLayerManager;
        m2 = addLayer 1730000000000 m1;
        m3 = fst (removeLayer ''layer-1'' m2);
        r = removeLayer ''layer-1730000000000'' m3
    in length (layers m2) = 3 \<and> length (layers m3) = 2
       \<and> layers (fst r) = [] \<and> snd r = Some TypeError)"
  by (simp add: addLayer_def removeLayer_def initialLayerManager_def Let_def decimal_timestamp)

section \<open>Layer manager: configuration updates\<close>

lemma spreadConfig_absent:
  "u_symbolSet u = None \<Longrightarrow> symbolSet (spreadConfig c u) = symbolSet c"
  "u_density u = None \<Longrightarrow> density (spreadConfig c u) = density c"
  "u_cellSize u = None \<Longrightarrow> cellSize (spreadConfig c u) = cellSize c"
  "u_color u = None \<Longrightarrow> color (spreadConfig c u) = color c"
  "u_bgColor u = None \<Longrightarrow> bgColor (spreadConfig c u) = bgColor c"
  "u_animationSpeed u = None \<Longrightarrow> animationSpeed (spreadConfig c u) = animationSpeed c"
  "u_pattern u = None \<Longrightarrow> pattern (spreadConfig c u) = pattern c"
  "u_gradient u = None \<Longrightarrow> gradient (spreadConfig c u) = gradient c"
  "u_glowEffect u = None \<Longrightarrow> glowEffect (spreadConfig c u) = glowEffect c"
  "u_shapeInfluence u = None \<Longrightarrow> shapeInfluence (spreadConfig c u) = shapeInfluence c"
  "u_gradientStrength u = None \<Longrightarrow> gradientStrength (spreadConfig c u) = gradientStrength c"
  "u_glowIntensity u = None \<Longrightarrow> glowIntensity (spreadConfig c u) = glowIntensity c"
  "u_glowRadius u = None \<Longrightarrow> glowRadius (spreadConfig c u) = glowRadius c"
  by (simp_all add: spreadConfig_def orElse_def)

lemma active_position_unique:
  assumes "distinct (map layer_id ls)" "i < length ls" "j < length ls"
    and "layer_id (ls ! i) = a" "layer_id (ls ! j) = a"
  shows "i = j"
proof -
  have eq: "map layer_id ls ! i = map layer_id ls ! j" using assms by simp
  have "i < length (map layer_id ls)" "j < length (map layer_id ls)" using assms by simp_all
  from nth_eq_iff_index_eq [OF assms(1) this] eq show ?thesis by blast
qed

lemma activeLayer_distinct:
  assumes "distinct (map layer_id (layers m))" "i < length (layers m)"
    and "layer_id (layers m ! i) = activeLayerId m"
  shows "activeLayer m = Some (layers m ! i)"
proof -
  have "\<not> layer_id (layers m ! j) = activeLayerId m" if "j < i" for j
  proof
    assume "layer_id (layers m ! j) = activeLayerId m"
    with active_position_unique[OF assms(1), of i j "activeLayerId m"] assms(2,3) that
    show False by simp
  qed
  with assms(2,3)
  have "find (\<lambda>l. layer_id l = activeLayerId m) (layers m) = Some (layers m ! i)"
    unfolding find_Some_iff by blast
  then show ?thesis by (simp add: activeLayer_def)
qed

text \<open>
  C10. \<open>updateActiveLayerConfig\<close> keeps the length and order of the list, the active id
  and the expanded set; a layer whose id is not the active id is unchanged; a layer
  whose id is the active id keeps id, name, visibility, opacity, shape image and shape
  data, its new configuration is the spread of the old one and the update, and every
  configuration field the update does not name is unchanged. When the layer ids are
  pairwise distinct, the layer carrying the active id is the hook's \<open>activeLayer\<close> and
  every other position of the list is unchanged.
\<close>

theorem updateActiveLayerConfig_changes_only_named_fields:
  "length (layers (updateActiveLayerConfig u m)) = length (layers m)
   \<and> map layer_id (layers (updateActiveLayerConfig u m)) = map layer_id (layers m)
   \<and> activeLayerId (updateActiveLayerConfig u m) = activeLayerId m
   \<and> expandedLayerIds (updateActiveLayerConfig u m) = expandedLayerIds m
   \<and> (\<forall>i < length (layers m).
        (layer_id (layers m ! i) \<noteq> activeLayerId m \<longrightarrow>
           layers (updateActiveLayerConfig u m) ! i = layers m ! i)
      \<and> (layer_id (layers m ! i) = activeLayerId m \<longrightarrow>
           layers (updateActiveLayerConfig u m) ! i
             = (layers m ! i)\<lparr>config := spreadConfig (config (layers m ! i)) u\<rparr>
         \<and> layer_id (layers (updateActiveLayerConfig u m) ! i) = layer_id (layers m ! i)
         \<and> name (layers (updateActiveLayerConfig u m) ! i) = name (layers m ! i)
         \<and> visible (layers (updateActiveLayerConfig u m) ! i) = visible (layers m ! i)
         \<and> opacity (layers (updateActiveLayerConfig u m) ! i) = opacity (layers m ! i)
         \<and> shapeImage (layers (updateActiveLayerConfig u m) ! i) = shapeImage (layers m ! i)
         \<and> shapeData (layers (updateActiveLayerConfig u m) ! i) = shapeData (layers m ! i)
         \<and> (u_symbolSet u = None \<longrightarrow>
              symbolSet (config (layers (updateActiveLayerConfig u m) ! i))
                = symbolSet (config (layers m ! i)))
         \<and> (u_density u = None \<longrightarrow>
              density (config (layers (updateActiveLayerConfig u m) ! i))
                = density (config (layers m ! i)))
         \<and> (u_cellSize u = None \<longrightarrow>
              cellSize (config (layers (updateActiveLayerConfig u m) ! i))
                = cellSize (config (layers m ! i)))
         \<and> (u_color u = None \<longrightarrow>
              color (config (layers (updateActiveLayerConfig u m) ! i))
                = color (config (layers m ! i)))
         \<and> (u_bgColor u = None \<longrightarrow>
              bgColor (config (layers (updateActiveLayerConfig u m) ! i))
                = bgColor (config (layers m ! i)))
         \<and> (u_animationSpeed u = None \<longrightarrow>
              animationSpeed (config (layers (updateActiveLayerConfig u m) ! i))
                = animationSpeed (config (layers m ! i)))
         \<and> (u_pattern u = None \<longrightarrow>
              pattern (config (layers (updateActiveLayerConfig u m) ! i))
                = pattern (config (layers m ! i)))
         \<and> (u_gradient u = None \<longrightarrow>
              gradient (config (layers (updateActiveLayerConfig u m) ! i))
                = gradient (config (layers m ! i)))
         \<and> (u_glowEffect u = None \<longrightarrow>
              glowEffect (config (layers (updateActiveLayerConfig u m) ! i))
                = glowEffect (config (layers m ! i)))
         \<and> (u_shapeInfluence u = None \<longrightarrow>
              shapeInfluence (config (layers (updateActiveLayerConfig u m) ! i))
                = shapeInfluence (config (layers m ! i)))
         \<and> (u_gradientStrength u = None \<longrightarrow>
              gradientStrength (config (layers (updateActiveLayerConfig u m) ! i))
                = gradientStrength (config (layers m ! i)))
         \<and> (u_glowIntensity u = None \<longrightarrow>
              glowIntensity (config (layers (updateActiveLayerConfig u m) ! i))
                = glowIntensity (config (layers m ! i)))
         \<and> (u_glowRadius u = None \<longrightarrow>
              glowRadius (config (layers (updateActiveLayerConfig u m) ! i))
                = glowRadius (config (layers m ! i)))))
   \<and> (distinct (map layer_id (layers m)) \<longrightarrow>
        (\<forall>i < length (layers m). layer_id (layers m ! i) = activeLayerId m \<longrightarrow>
           activeLayer m = Some (layers m ! i)
         \<and> (\<forall>j < length (layers m). j \<noteq> i \<longrightarrow>
                layers (updateActiveLayerConfig u m) ! j = layers m ! j)))"
proof -
  have len: "length (layers (updateActiveLayerConfig u m)) = length (layers m)"
    by (simp add: updateActiveLayerConfig_def)
  have ids: "map layer_id (layers (updateActiveLayerConfig u m)) = map layer_id (layers m)"
    by (simp add: updateActiveLayerConfig_def comp_def if_distrib [of layer_id] cong: if_cong)
  have rest: "activeLayerId (updateActiveLayerConfig u m) = activeLayerId m"
    "expandedLayerIds (updateActiveLayerConfig u m) = expandedLayerIds m"
    by (simp_all add: updateActiveLayerConfig_def)
  have other: "layers (updateActiveLayerConfig u m) ! i = layers m ! i"
    if "i < length (layers m)" "layer_id (layers m ! i) \<noteq> activeLayerId m" for i
    using that by (simp add: updateActiveLayerConfig_def)
  have active: "layers (updateActiveLayerConfig u m) ! i
                  = (layers m ! i)\<lparr>config := spreadConfig (config (layers m ! i)) u\<rparr>"
    if "i < length (layers m)" "layer_id (layers m ! i) = activeLayerId m" for i
    using that by (simp add: updateActiveLayerConfig_def)
  have single: "activeLayer m = Some (layers m ! i)
         \<and> (\<forall>j < length (layers m). j \<noteq> i \<longrightarrow>
                layers (updateActiveLayerConfig u m) ! j = layers m ! j)"
    if d: "distinct (map layer_id (layers m))" and i: "i < length (layers m)"
      and a: "layer_id (layers m ! i) = activeLayerId m" for i
  proof -
    have "layers (updateActiveLayerConfig u m) ! j = layers m ! j"
      if "j < length (layers m)" "j \<noteq> i" for j
    proof (rule other)
      show "j < length (layers m)" by (rule that)
      show "layer_id (layers m ! j) \<noteq> activeLayerId m"
        using active_position_unique [OF d i that(1) a] that(2) by blast
    qed
    with activeLayer_distinct [OF d i a] show ?thesis by blast
  qed
  show ?thesis
    using len ids rest other active single by (simp add: spreadConfig_absent)
qed

theorem updateActiveLayerConfig_changes_only_named_fields_witness:
  "(let m = addLayer 1730000000000 initialLayerManager;
        u = \<lparr> u_symbolSet = None, u_density = Some (1 / 2), u_cellSize = None, u_color = None,
              u_bgColor = None, u_animationSpeed = None, u_pattern = Some ''wave'',
              u_gradient = None, u_glowEffect = None, u_shapeInfluence = None,
              u_gradientStrength = None, u_glowIntensity = None, u_glowRadius = None \<rparr>
    in (0::nat) < length (layers m) \<and> (1::nat) < length (layers m)
       \<and> layer_id (layers m ! 0) \<noteq> activeLayerId m
       \<and> layer_id (layers m ! 1) = activeLayerId m
       \<and> u_color u = None
       \<and> layers (updateActiveLayerConfig u m) ! 0 = layers m ! 0
       \<and> density (config (layers (updateActiveLayerConfig u m) ! 1)) = 1 / 2
       \<and> pattern (config (layers (updateActiveLayerConfig u m) ! 1)) = ''wave''
       \<and> color (config (layers (updateActiveLayerConfig u m) ! 1)) = color (config (layers m ! 1))
       \<and> name (layers (updateActiveLayerConfig u m) ! 1) = ''Layer 2'')"
  using updateActiveLayerConfig_changes_only_named_fields
          [of "\<lparr> u_symbolSet = None, u_density = Some (1 / 2), u_cellSize = None, u_color = None,
                u_bgColor = None, u_animationSpeed = None, u_pattern = Some ''wave'',
                u_gradient = None, u_glowEffect = None, u_shapeInfluence = None,
                u_gradientStrength = None, u_glowIntensity = None, u_glowRadius = None \<rparr>"
              "addLayer 1730000000000 initialLayerManager"]
  by (simp add: addLayer_def initialLayerManager_def Let_def decimal_timestamp decimal_small
        digitChar_def spreadConfig_def orElse_def)

section \<open>Frame scheduler: stepping\<close>

text \<open>
  C9. For a direction of \<open>+1\<close> or \<open>-1\<close>, \<open>stepFrame\<close> moves the frame counter by exactly the
  direction, a distance of one, shows the new value, and calls the render callback once,
  with the new counter value: the state the callback acts on is its state before the
  step with one call applied, and a callback that records its calls records one more.
\<close>

theorem stepFrame_moves_one_and_renders_once:
  assumes "direction = 1 \<or> direction = - 1"
  shows "frameCounter (fst (stepFrame render direction (a, w))) = frameCounter a + direction
       \<and> \<bar>frameCounter (fst (stepFrame render direction (a, w))) - frameCounter a\<bar> = 1
       \<and> currentFrame (fst (stepFrame render direction (a, w))) = frameCounter a + direction
       \<and> isAnimating (fst (stepFrame render direction (a, w))) = isAnimating a
       \<and> snd (stepFrame render direction (a, w)) = render (frameCounter a + direction) w
       \<and> snd (stepFrame (\<lambda>f calls. calls @ [f]) direction (a, calls))
            = calls @ [frameCounter a + direction]"
  using assms by (auto simp: stepFrame_def Let_def)

theorem stepFrame_moves_one_and_renders_once_witness:
  "((- 1 :: int) = 1 \<or> (- 1 :: int) = - 1)
   \<and> frameCounter (fst (stepFrame (\<lambda>f calls. calls @ [f]) (- 1)
        (\<lparr>frameCounter = 0, currentFrame = 0, isAnimating = False\<rparr>, []))) = - 1
   \<and> snd (stepFrame (\<lambda>f calls. calls @ [f]) (- 1)
        (\<lparr>frameCounter = 0, currentFrame = 0, isAnimating = False\<rparr>, [])) = [- 1]"
  using stepFrame_moves_one_and_renders_once
          [of "- 1" "\<lambda>f calls. calls @ [f]"
              "\<lparr>frameCounter = 0, currentFrame = 0, isAnimating = False\<rparr>" "[]" "[]"]
  by simp

section \<open>Shape influence resolver\<close>

text \<open>
  C8. Without shape data the resolver returns exactly \<open>1\<close>, for every cell and all grid
  dimensions, and does not throw.
\<close>

theorem resolver_neutral_without_shape_data:
  "getShapeBrightnessForLayer px py cols rows (layer\<lparr>shapeData := None\<rparr>) = Inr (Num 1)"
  by (simp add: getShapeBrightnessForLayer_def)

lemma blend_bounds:
  fixes b k :: real
  assumes "0 \<le> b" "b \<le> 1" "0 \<le> k" "k \<le> 1"
  shows "1 - k \<le> b * k + (1 - k)" "b * k + (1 - k) \<le> 1"
proof -
  have "0 \<le> b * k" using assms by simp
  then show "1 - k \<le> b * k + (1 - k)" by simp
  have "b * k \<le> 1 * k" using assms by (intro mult_right_mono) auto
  then show "b * k + (1 - k) \<le> 1" by simp
qed

text \<open>
  C3. For a layer whose shape influence \<open>k\<close> lies in \<open>[0, 1]\<close> and whose shape data is absent
  or a non-empty rectangular grid of brightness values in \<open>[0, 1]\<close>, the resolver returns a
  number \<open>v\<close> with \<open>1 - k \<le> v \<le> 1\<close>, for every cell and all grid dimensions: \<open>1\<close> without
  shape data, \<open>1 - k\<close> outside the centred shape (and for unbounded dimensions), and
  \<open>brightness * k + (1 - k)\<close> inside.
\<close>

theorem resolver_within_influence_bounds:
  assumes k: "0 \<le> shapeInfluence (config layer)" "shapeInfluence (config layer) \<le> 1"
    and g: "case shapeData layer of
              None \<Rightarrow> True
            | Some g \<Rightarrow> g \<noteq> []
                \<and> list_all (\<lambda>row. length row = length (hd g)
                                  \<and> list_all (\<lambda>b. 0 \<le> b \<and> b \<le> 1) row) g"
  shows "\<exists>v. getShapeBrightnessForLayer px py cols rows layer = Inr (Num v)
           \<and> 1 - shapeInfluence (config layer) \<le> v \<and> v \<le> 1
           \<and> (shapeData layer = None \<longrightarrow> v = 1)
           \<and> (\<forall>g c r. shapeData layer = Some g \<and> cols = Finite c \<and> rows = Finite r \<longrightarrow>
                 (let w = int (length (hd g)); h = int (length g);
                      sx = px - (c - w) div 2; sy = py - (r - h) div 2
                  in if sx < 0 \<or> sx \<ge> w \<or> sy < 0 \<or> sy \<ge> h
                     then v = 1 - shapeInfluence (config layer)
                     else v = g ! nat sy ! nat sx * shapeInfluence (config layer)
                                + (1 - shapeInfluence (config layer))))
           \<and> (\<forall>g. shapeData layer = Some g \<and> (cols = Infinity \<or> rows = Infinity) \<longrightarrow>
                 v = 1 - shapeInfluence (config layer))"
proof (cases "shapeData layer")
  case None
  then show ?thesis using k by (simp add: getShapeBrightnessForLayer_def)
next
  case (Some g)
  from g Some have wf: "g \<noteq> [] \<and> list_all (\<lambda>row. length row = length (hd g)
                                  \<and> list_all (\<lambda>b. 0 \<le> b \<and> b \<le> 1) row) g"
    by simp
  then have ne: "g \<noteq> []" by (rule conjunct1)
  from wf have all: "\<forall>row \<in> set g. length row = length (hd g) \<and> (\<forall>b \<in> set row. 0 \<le> b \<and> b \<le> 1)"
    unfolding list_all_iff by (rule conjunct2)
  have rect: "length row = length (hd g)" if "row \<in> set g" for row
    using all that by blast
  have unit: "0 \<le> b \<and> b \<le> 1" if "row \<in> set g" "b \<in> set row" for row b
    using all that by blast
  from ne obtain row0 rest where gr: "g = row0 # rest" by (cases g) auto
  then have hd: "hd g = row0" by simp
  let ?k = "shapeInfluence (config layer)"
  let ?w = "int (length row0)" and ?h = "int (length g)"
  let ?out = "outsideAxis px (centreOffset cols ?w) ?w \<or> outsideAxis py (centreOffset rows ?h) ?h"
  show ?thesis
  proof (cases ?out)
    case True
    then have "getShapeBrightnessForLayer px py cols rows layer = Inr (Num (1 - ?k))"
      using Some gr by (simp add: getShapeBrightnessForLayer_def Let_def)
    moreover have "\<forall>c r. cols = Finite c \<and> rows = Finite r \<longrightarrow>
        (px - (c - ?w) div 2 < 0 \<or> px - (c - ?w) div 2 \<ge> ?w
         \<or> py - (r - ?h) div 2 < 0 \<or> py - (r - ?h) div 2 \<ge> ?h)"
      using True by (auto simp: outsideAxis_def centreOffset_def)
    ultimately show ?thesis using k Some gr by (auto simp: Let_def)
  next
    case False
    then obtain c r where cr: "cols = Finite c" "rows = Finite r"
      by (cases cols; cases rows) (auto simp: outsideAxis_def centreOffset_def)
    let ?sx = "px - (c - ?w) div 2" and ?sy = "py - (r - ?h) div 2"
    from False cr have inside: "0 \<le> ?sx" "?sx < ?w" "0 \<le> ?sy" "?sy < ?h"
      by (auto simp: outsideAxis_def centreOffset_def)
    then have sy: "nat ?sy < length g" by simp
    then have rowin: "g ! nat ?sy \<in> set g" by simp
    from rect [OF rowin] hd have len: "length (g ! nat ?sy) = length row0" by simp
    from inside len have sx: "nat ?sx < length (g ! nat ?sy)" by simp
    then have "g ! nat ?sy ! nat ?sx \<in> set (g ! nat ?sy)" by simp
    from unit [OF rowin this]
    have b: "0 \<le> g ! nat ?sy ! nat ?sx" "g ! nat ?sy ! nat ?sx \<le> 1" by simp_all
    have val: "getShapeBrightnessForLayer px py cols rows layer
                 = Inr (Num (g ! nat ?sy ! nat ?sx * ?k + (1 - ?k)))"
      using False Some gr cr sx by (simp add: getShapeBrightnessForLayer_def Let_def centreOffset_def)
    show ?thesis
      using val blend_bounds[OF b k] Some gr cr inside by (auto simp: Let_def)
  qed
qed

lemma shapedLayer_inside:
  "getShapeBrightnessForLayer 2 1 (Finite 4) (Finite 4) shapedLayer = Inr (Num (3 / 5))"
  by (simp add: getShapeBrightnessForLayer_def centreOffset_def outsideAxis_def
        DEFAULT_LAYER_CONFIG_def Let_def)

theorem resolver_within_influence_bounds_witness:
  "0 \<le> shapeInfluence (config shapedLayer) \<and> shapeInfluence (config shapedLayer) \<le> 1
   \<and> list_all (\<lambda>row. length row = 2 \<and> list_all (\<lambda>b. (0::real) \<le> b \<and> b \<le> 1) row)
        [[0, 1 / 2], [1, 1 / 4]]
   \<and> getShapeBrightnessForLayer 2 1 (Finite 4) (Finite 4) shapedLayer = Inr (Num (3 / 5))
   \<and> 1 - shapeInfluence (config shapedLayer) \<le> 3 / 5 \<and> (3 / 5 :: real) \<le> 1"
proof -
  have h1: "0 \<le> shapeInfluence (config shapedLayer)"
    and h2: "shapeInfluence (config shapedLayer) \<le> 1"
    by (simp_all add: DEFAULT_LAYER_CONFIG_def)
  have h3: "case shapeData shapedLayer of
              None \<Rightarrow> True
            | Some g \<Rightarrow> g \<noteq> []
                \<and> list_all (\<lambda>row. length row = length (hd g)
                                  \<and> list_all (\<lambda>b. 0 \<le> b \<and> b \<le> 1) row) g"
    by simp
  from resolver_within_influence_bounds [OF h1 h2 h3, of 2 1 "Finite 4" "Finite 4"]
  obtain v where "getShapeBrightnessForLayer 2 1 (Finite 4) (Finite 4) shapedLayer = Inr (Num v)"
    and "1 - shapeInfluence (config shapedLayer) \<le> v" and "v \<le> 1"
    by blast
  with shapedLayer_inside
  have "1 - shapeInfluence (config shapedLayer) \<le> 3 / 5" and "(3 / 5 :: real) \<le> 1" by simp_all
  with h1 h2 shapedLayer_inside show ?thesis by simp
qed

section \<open>Layer compositor and drop state\<close>

lemma forEach_invariant:
  assumes "forEach body xs s = (s', e)" and "I s"
    and "\<And>x t t' e'. x \<in> set xs \<Longrightarrow> I t \<Longrightarrow> body x t = (t', e') \<Longrightarrow> I t'"
  shows "I s'"
  using assms
proof (induction xs arbitrary: s)
  case Nil
  then show ?case by simp
next
  case (Cons x xs)
  obtain t e1 where b: "body x s = (t, e1)" by (cases "body x s")
  have It: "I t" using Cons.prems(2,3) b by auto
  show ?case
  proof (cases e1)
    case None
    with b Cons.prems(1) have "forEach body xs t = (s', e)" by simp
    then show ?thesis
    proof (rule Cons.IH)
      show "I t" by (rule It)
    next
      fix y u u' e'
      assume "y \<in> set xs" "I u" "body y u = (u', e')"
      then show "I u'" using Cons.prems(3)[of y u u' e'] by simp
    qed
  next
    case (Some a)
    with b Cons.prems(1) have "s' = t" by simp
    with It show ?thesis by simp
  qed
qed

lemma compositeLayer_keeps_drops:
  "compositeLayer env seeds frame layer w = (w', e) \<Longrightarrow> drops w' = drops w \<and> random w' = random w"
  by (auto simp: compositeLayer_def split: prod.splits option.splits)

lemma composite_loop_keeps_drops:
  assumes "forEach (compositeLayer env seeds frame) vs w = (w', e)"
  shows "drops w' = drops w \<and> random w' = random w"
  by (rule forEach_invariant[OF assms, where I = "\<lambda>t. drops t = drops w \<and> random t = random w"])
     (auto dest: compositeLayer_keeps_drops)

lemma advanceDrop_rule:
  "advanceDrop (Finite r) d g =
     (if drop_y d + drop_speed d * (3 / 10) > real_of_int r + drop_length d
      then (d\<lparr>drop_y := - drop_length d, drop_speed := 1 / 2 + g 0 * (3 / 2)\<rparr>, \<lambda>n. g (Suc n))
      else (d\<lparr>drop_y := drop_y d + drop_speed d * (3 / 10)\<rparr>, g))"
  by (simp add: advanceDrop_def beyond_def Let_def)

lemma advanceDrop_bound:
  assumes "0 \<le> r" "0 \<le> drop_length d"
  shows "drop_y (fst (advanceDrop (Finite r) d g)) \<le> real_of_int r + drop_length (fst (advanceDrop (Finite r) d g))"
  using assms by (simp add: advanceDrop_rule)

lemma updateDrops_bound:
  assumes "0 \<le> r" "\<forall>d \<in> set ds. 0 \<le> drop_length d"
  shows "\<forall>d' \<in> set (fst (updateDrops (Finite r) ds g)). drop_y d' \<le> real_of_int r + drop_length d'"
  using assms
proof (induction ds arbitrary: g)
  case Nil
  then show ?case by simp
next
  case (Cons d ds)
  obtain d' g' where a: "advanceDrop (Finite r) d g = (d', g')" by (cases "advanceDrop (Finite r) d g")
  obtain ds' g'' where u: "updateDrops (Finite r) ds g' = (ds', g'')" by (cases "updateDrops (Finite r) ds g'")
  have "drop_y d' \<le> real_of_int r + drop_length d'"
    using advanceDrop_bound[of r d g] Cons.prems a by simp
  moreover have "\<forall>x \<in> set ds'. drop_y x \<le> real_of_int r + drop_length x"
    using Cons.IH[of g'] Cons.prems u by simp
  ultimately show ?case using a u by simp
qed

lemma filter_hidden:
  assumes "k < length ls"
  shows "filter visible (ls[k := (ls ! k)\<lparr>visible := False\<rparr>]) = filter visible (take k ls @ drop (Suc k) ls)"
  using assms by (simp add: upd_conv_take_nth_drop)

lemma background_hidden:
  assumes "k < length ls" "0 < k"
  shows "backgroundOf (ls[k := v]) = backgroundOf ls" "backgroundOf (take k ls @ drop (Suc k) ls) = backgroundOf ls"
  using assms by (cases ls; cases k; simp add: backgroundOf_def)+

lemma background_hidden0:
  "backgroundOf (ls[0 := (ls ! 0)\<lparr>visible := False\<rparr>]) = backgroundOf ls"
  by (cases ls) (simp_all add: backgroundOf_def)

lemma renderFrame_cong:
  assumes "filter visible ls = filter visible ls'" "backgroundOf ls = backgroundOf ls'"
  shows "renderFrame env ls seeds cs frame w = renderFrame env ls' seeds cs frame w"
  using assms by (simp add: renderFrame_def)


lemma advanceDrop_rng:
  assumes "\<forall>n. 0 \<le> g n \<and> g n < 1"
  shows "\<forall>n. 0 \<le> snd (advanceDrop rows d g) n \<and> snd (advanceDrop rows d g) n < 1"
  using assms by (simp add: advanceDrop_def Let_def)

lemma updateDrops_length: "length (fst (updateDrops rows ds g)) = length ds"
proof (induction ds arbitrary: g)
  case Nil
  then show ?case by simp
next
  case (Cons d ds)
  obtain d' g' where a: "advanceDrop rows d g = (d', g')" by (cases "advanceDrop rows d g")
  obtain ds' g'' where u: "updateDrops rows ds g' = (ds', g'')" by (cases "updateDrops rows ds g'")
  from Cons.IH[of g'] u have "length ds' = length ds" by simp
  with a u show ?case by simp
qed

lemma advanceDrop_step:
  assumes "0 \<le> g 0" "g 0 < 1"
  shows "drop_x (fst (advanceDrop (Finite r) d g)) = drop_x d
       \<and> drop_length (fst (advanceDrop (Finite r) d g)) = drop_length d
       \<and> (if drop_y d + drop_speed d * (3 / 10) > real_of_int r + drop_length d
          then drop_y (fst (advanceDrop (Finite r) d g)) = - drop_length d
               \<and> 1 / 2 \<le> drop_speed (fst (advanceDrop (Finite r) d g))
               \<and> drop_speed (fst (advanceDrop (Finite r) d g)) \<le> 2
          else drop_y (fst (advanceDrop (Finite r) d g)) = drop_y d + drop_speed d * (3 / 10)
               \<and> drop_speed (fst (advanceDrop (Finite r) d g)) = drop_speed d)"
  using assms by (simp add: advanceDrop_rule)

lemma updateDrops_nth:
  assumes "\<forall>n. 0 \<le> g n \<and> g n < 1" "i < length ds"
  shows "\<exists>h. (\<forall>n. 0 \<le> h n \<and> h n < 1)
           \<and> fst (updateDrops (Finite r) ds g) ! i = fst (advanceDrop (Finite r) (ds ! i) h)"
  using assms
proof (induction ds arbitrary: g i)
  case Nil
  then show ?case by simp
next
  case (Cons d ds)
  obtain d' g' where a: "advanceDrop (Finite r) d g = (d', g')" by (cases "advanceDrop (Finite r) d g")
  obtain ds' g'' where u: "updateDrops (Finite r) ds g' = (ds', g'')" by (cases "updateDrops (Finite r) ds g'")
  have g': "\<forall>n. 0 \<le> g' n \<and> g' n < 1" using advanceDrop_rng[OF Cons.prems(1), of "Finite r" d] a by simp
  show ?case
  proof (cases i)
    case 0
    with a u Cons.prems(1) show ?thesis by (intro exI[of _ g]) simp
  next
    case (Suc k)
    with Cons.prems(2) have "k < length ds" by simp
    from Cons.IH[OF g' this] u obtain h where
      "\<forall>n. 0 \<le> h n \<and> h n < 1" "ds' ! k = fst (advanceDrop (Finite r) (ds ! k) h)" by auto
    with Suc a u show ?thesis by (intro exI[of _ h]) simp
  qed
qed

text \<open>
  C5. One mutation pass over the drops, on a grid of \<open>rows \<ge> 0\<close> rows, with trail lengths
  that are not negative and random draws in \<open>[0, 1)\<close>: every drop ends with
  \<open>y \<le> rows + length\<close>; a drop whose advanced position \<open>y + speed * 0.3\<close> exceeds
  \<open>rows + length\<close> restarts at \<open>y = - length\<close> with a new speed in \<open>[0.5, 2]\<close>, any other drop
  moves to \<open>y + speed * 0.3\<close> and keeps its speed; column and length never change.
\<close>

theorem drops_wrap_at_bottom:
  assumes "0 \<le> rows" and "\<forall>d \<in> set ds. 0 \<le> drop_length d" and "\<forall>n. 0 \<le> g n \<and> g n < 1"
  shows "length (fst (updateDrops (Finite rows) ds g)) = length ds
       \<and> (\<forall>d' \<in> set (fst (updateDrops (Finite rows) ds g)).
             drop_y d' \<le> real_of_int rows + drop_length d')
       \<and> (\<forall>i < length ds.
             drop_x (fst (updateDrops (Finite rows) ds g) ! i) = drop_x (ds ! i)
           \<and> drop_length (fst (updateDrops (Finite rows) ds g) ! i) = drop_length (ds ! i)
           \<and> (if drop_y (ds ! i) + drop_speed (ds ! i) * (3 / 10)
                    > real_of_int rows + drop_length (ds ! i)
              then drop_y (fst (updateDrops (Finite rows) ds g) ! i) = - drop_length (ds ! i)
                   \<and> 1 / 2 \<le> drop_speed (fst (updateDrops (Finite rows) ds g) ! i)
                   \<and> drop_speed (fst (updateDrops (Finite rows) ds g) ! i) \<le> 2
              else drop_y (fst (updateDrops (Finite rows) ds g) ! i)
                     = drop_y (ds ! i) + drop_speed (ds ! i) * (3 / 10)
                   \<and> drop_speed (fst (updateDrops (Finite rows) ds g) ! i) = drop_speed (ds ! i)))"
proof -
  have step: "drop_x (fst (updateDrops (Finite rows) ds g) ! i) = drop_x (ds ! i)
           \<and> drop_length (fst (updateDrops (Finite rows) ds g) ! i) = drop_length (ds ! i)
           \<and> (if drop_y (ds ! i) + drop_speed (ds ! i) * (3 / 10)
                    > real_of_int rows + drop_length (ds ! i)
              then drop_y (fst (updateDrops (Finite rows) ds g) ! i) = - drop_length (ds ! i)
                   \<and> 1 / 2 \<le> drop_speed (fst (updateDrops (Finite rows) ds g) ! i)
                   \<and> drop_speed (fst (updateDrops (Finite rows) ds g) ! i) \<le> 2
              else drop_y (fst (updateDrops (Finite rows) ds g) ! i)
                     = drop_y (ds ! i) + drop_speed (ds ! i) * (3 / 10)
                   \<and> drop_speed (fst (updateDrops (Finite rows) ds g) ! i) = drop_speed (ds ! i))"
    if "i < length ds" for i
  proof -
    from updateDrops_nth[OF assms(3) that, of rows] obtain h where
      h: "\<forall>n. 0 \<le> h n \<and> h n < 1"
      and eq: "fst (updateDrops (Finite rows) ds g) ! i = fst (advanceDrop (Finite rows) (ds ! i) h)"
      by auto
    from h have "0 \<le> h 0" "h 0 < 1" by auto
    then show ?thesis unfolding eq by (rule advanceDrop_step)
  qed
  show ?thesis
    using updateDrops_length[of "Finite rows" ds g] updateDrops_bound[OF assms(1,2), of g] step
    by blast
qed

theorem drops_wrap_at_bottom_witness:
  "(0::int) \<le> 50
   \<and> 0 \<le> drop_length \<lparr>drop_x = 3, drop_y = 139 / 2, drop_speed = 2, drop_length = 20\<rparr>
   \<and> (0::real) \<le> 1 / 2 \<and> (1 / 2 :: real) < 1
   \<and> 139 / 2 + 2 * (3 / 10) > real_of_int 50 + (20::real)
   \<and> fst (updateDrops (Finite 50)
            [\<lparr>drop_x = 3, drop_y = 139 / 2, drop_speed = 2, drop_length = 20\<rparr>] (\<lambda>n. 1 / 2))
       = [\<lparr>drop_x = 3, drop_y = - 20, drop_speed = 5 / 4, drop_length = 20\<rparr>]"
  using drops_wrap_at_bottom
          [of 50 "[\<lparr>drop_x = 3, drop_y = 139 / 2, drop_speed = 2, drop_length = 20\<rparr>]" "\<lambda>n. 1 / 2"]
  by (simp add: advanceDrop_def beyond_def Let_def)

lemma composite_loop_calls:
  assumes "forEach (compositeLayer env seeds frame) vs w = (w', None)"
  shows "mainCalls w' = mainCalls w @ concat (map (\<lambda>layer.
             [MainGlobalAlpha (opacity layer),
              MainDrawImage (fst (renderLayerToCanvas env (drops w) seeds layer frame)),
              MainGlobalAlpha 1]) vs)
       \<and> (\<forall>layer \<in> set vs. snd (renderLayerToCanvas env (drops w) seeds layer frame) = None)"
  using assms
proof (induction vs arbitrary: w)
  case Nil
  then show ?case by simp
next
  case (Cons v vs)
  obtain off e1 where r: "renderLayerToCanvas env (drops w) seeds v frame = (off, e1)"
    by (cases "renderLayerToCanvas env (drops w) seeds v frame")
  show ?case
  proof (cases e1)
    case (Some a)
    with r Cons.prems show ?thesis by (simp add: compositeLayer_def)
  next
    case None
    let ?w1 = "w\<lparr>mainCalls := mainCalls w @ [MainGlobalAlpha (opacity v), MainDrawImage off,
                                              MainGlobalAlpha 1]\<rparr>"
    from r None have step: "compositeLayer env seeds frame v w = (?w1, None)"
      by (simp add: compositeLayer_def)
    with Cons.prems have rest: "forEach (compositeLayer env seeds frame) vs ?w1 = (w', None)"
      by simp
    from Cons.IH [OF rest] r None show ?thesis by simp
  qed
qed

text \<open>
  C4. A call of \<open>renderFrame\<close> that runs to its end, that is a full composite pass, draws
  every visible layer, in list order, from the drops the pass started with and merges it
  onto the main canvas: the calls on the main canvas are the background fill followed,
  for each visible layer, by its opacity, its offscreen image rendered from the initial
  drops, and the reset of the opacity. Only then are the drops advanced, once: the pass
  leaves the drops and the random source exactly as one run of the drop update on the
  initial drops leaves them, whatever the layers are and however many of them use the
  rain pattern. A call that returns early or ends with an exception leaves the drops as
  they were, and compositing a layer, or the whole list of layers, never changes the
  drops.
\<close>

theorem drops_advance_once_per_pass:
  "(snd (renderFrame env ls seeds cs frame w) = Completed \<longrightarrow>
      (drops (fst (renderFrame env ls seeds cs frame w)),
       random (fst (renderFrame env ls seeds cs frame w)))
        = updateDrops (gridDim (canvasHeight env) cs) (drops w) (random w))
   \<and> (snd (renderFrame env ls seeds cs frame w) \<noteq> Completed \<longrightarrow>
        drops (fst (renderFrame env ls seeds cs frame w)) = drops w
        \<and> random (fst (renderFrame env ls seeds cs frame w)) = random w)
   \<and> drops (fst (compositeLayer env seeds frame layer w)) = drops w
   \<and> random (fst (compositeLayer env seeds frame layer w)) = random w
   \<and> drops (fst (forEach (compositeLayer env seeds frame) ls w)) = drops w
   \<and> random (fst (forEach (compositeLayer env seeds frame) ls w)) = random w
   \<and> (snd (renderFrame env ls seeds cs frame w) = Completed \<longrightarrow>
        mainCalls (fst (renderFrame env ls seeds cs frame w))
          = mainCalls w
            @ [MainFillStyle (backgroundOf ls),
               MainFillRect 0 0 (real (canvasWidth env)) (real (canvasHeight env))]
            @ concat (map (\<lambda>l. [MainGlobalAlpha (opacity l),
                                  MainDrawImage (fst (renderLayerToCanvas env (drops w) seeds l frame)),
                                  MainGlobalAlpha 1])
                        (filter visible ls))
      \<and> (\<forall>l \<in> set (filter visible ls).
            snd (renderLayerToCanvas env (drops w) seeds l frame) = None))"
proof -
  let ?w1 = "w\<lparr>mainCalls := mainCalls w @
                      [MainFillStyle (backgroundOf ls),
                       MainFillRect 0 0 (real (canvasWidth env)) (real (canvasHeight env))]\<rparr>"
  obtain w2 e where loop: "forEach (compositeLayer env seeds frame) (filter visible ls) ?w1 = (w2, e)"
    by (cases "forEach (compositeLayer env seeds frame) (filter visible ls) ?w1")
  from composite_loop_keeps_drops[OF loop] have keep: "drops w2 = drops w" "random w2 = random w"
    by simp_all
  obtain w3 e3 where c: "compositeLayer env seeds frame layer w = (w3, e3)"
    by (cases "compositeLayer env seeds frame layer w")
  from compositeLayer_keeps_drops[OF c] c
  have third: "drops (fst (compositeLayer env seeds frame layer w)) = drops w
     \<and> random (fst (compositeLayer env seeds frame layer w)) = random w" by simp
  obtain w4 e4 where l4: "forEach (compositeLayer env seeds frame) ls w = (w4, e4)"
    by (cases "forEach (compositeLayer env seeds frame) ls w")
  from composite_loop_keeps_drops[OF l4] l4
  have fourth: "drops (fst (forEach (compositeLayer env seeds frame) ls w)) = drops w
     \<and> random (fst (forEach (compositeLayer env seeds frame) ls w)) = random w" by simp
  have first: "(snd (renderFrame env ls seeds cs frame w) = Completed \<longrightarrow>
      (drops (fst (renderFrame env ls seeds cs frame w)),
       random (fst (renderFrame env ls seeds cs frame w)))
        = updateDrops (gridDim (canvasHeight env) cs) (drops w) (random w))
   \<and> (snd (renderFrame env ls seeds cs frame w) \<noteq> Completed \<longrightarrow>
        drops (fst (renderFrame env ls seeds cs frame w)) = drops w
        \<and> random (fst (renderFrame env ls seeds cs frame w)) = random w)"
    using loop keep
    by (cases e) (auto simp: renderFrame_def Let_def split: prod.splits)
  have fifth: "mainCalls (fst (renderFrame env ls seeds cs frame w))
          = mainCalls w
            @ [MainFillStyle (backgroundOf ls),
               MainFillRect 0 0 (real (canvasWidth env)) (real (canvasHeight env))]
            @ concat (map (\<lambda>l. [MainGlobalAlpha (opacity l),
                                  MainDrawImage (fst (renderLayerToCanvas env (drops w) seeds l frame)),
                                  MainGlobalAlpha 1])
                        (filter visible ls))
      \<and> (\<forall>l \<in> set (filter visible ls).
            snd (renderLayerToCanvas env (drops w) seeds l frame) = None)"
    if fin: "snd (renderFrame env ls seeds cs frame w) = Completed"
  proof -
    from fin loop have e: "e = None"
      by (cases e) (auto simp: renderFrame_def Let_def split: if_splits prod.splits)
    from fin have live: "canvasMounted env" "mainContext env"
      "\<not> (canvasWidth env = 0 \<or> canvasHeight env = 0)"
      by (auto simp: renderFrame_def split: if_splits)
    from loop e have run: "forEach (compositeLayer env seeds frame) (filter visible ls) ?w1 = (w2, None)"
      by simp
    have calls: "mainCalls (fst (renderFrame env ls seeds cs frame w)) = mainCalls w2"
      using live run by (simp add: renderFrame_def Let_def split: prod.splits)
    from composite_loop_calls [OF run] calls show ?thesis by simp
  qed
  from first third fourth fifth show ?thesis by blast
qed

lemma hexDigits_small: "n < 16 \<Longrightarrow> hexDigits n = [digitChar n]"
  by (subst hexDigits.simps) simp

lemma hexDigits_large: "\<not> n < 16 \<Longrightarrow> hexDigits n = hexDigits (n div 16) @ [digitChar (n mod 16)]"
  by (subst hexDigits.simps) simp

lemmas eval_defs =
  renderFrame_def compositeLayer_def renderLayerToCanvas_def gridOf_def gridDim_def
  renderRainPattern_def rainTrail_def rainBrightness_def atLeastDim_def beginPattern_def
  applyBrightness_def brightnessToHex_def padStart2_def toString16_def hexDigits_small
  hexDigits_large digitChar_def calculateGlowBlur_def getShapeBrightnessForLayer_def
  seedAt_def js_rem_def tmod_def symbolAt_def halfCellOf_def colsOf_def rowsOf_def
  backgroundOf_def advanceDrop_def beyond_def DEFAULT_LAYER_CONFIG_def Let_def
  renderWavePattern_def renderGrid_def waveCell_def waveAlpha_def cellCentre_def gridCells_def
  drawCell_def centreOffset_def outsideAxis_def

lemma upt2: "[0..<2] = [0, 1]" by (simp add: upt_rec)

lemma two_rain_layers_pass:
  "snd (renderFrame passEnv rainLayers twoSeeds 12 7 oneDrop) = Completed"
  by (simp add: eval_defs upt2)

theorem drops_advance_once_per_pass_witness:
  "snd (renderFrame passEnv rainLayers twoSeeds 12 7 oneDrop) = Completed
   \<and> drops (fst (renderFrame passEnv rainLayers twoSeeds 12 7 oneDrop))
     = [\<lparr>drop_x = 0, drop_y = 4 / 5, drop_speed = 1, drop_length = 3 / 2\<rparr>]
   \<and> mainCalls (fst (renderFrame passEnv rainLayers twoSeeds 12 7 oneDrop))
     = [MainFillStyle ''#0a0e27'', MainFillRect 0 0 12 24,
        MainGlobalAlpha 1,
        MainDrawImage (fst (renderLayerToCanvas passEnv (drops oneDrop) twoSeeds (rainLayers ! 0) 7)),
        MainGlobalAlpha 1,
        MainGlobalAlpha (1 / 2),
        MainDrawImage (fst (renderLayerToCanvas passEnv (drops oneDrop) twoSeeds (rainLayers ! 1) 7)),
        MainGlobalAlpha 1]
   \<and> fst (renderLayerToCanvas passEnv (drops oneDrop) twoSeeds (rainLayers ! 0) 7)
     = [ClearRect 0 0 12 24, SetFont 10, SetTextAlign ''center'', SetTextBaseline ''middle'',
        SetShadowColor ''#00ff9f'', SetFillStyle ''#00ff9fff'', SetShadowBlur 10,
        FillText (Some CHR ''0'') 6 6]"
proof -
  note inst = drops_advance_once_per_pass [of passEnv rainLayers twoSeeds 12 7 oneDrop]
  from inst
  have "snd (renderFrame passEnv rainLayers twoSeeds 12 7 oneDrop) = Completed \<longrightarrow>
      (drops (fst (renderFrame passEnv rainLayers twoSeeds 12 7 oneDrop)),
       random (fst (renderFrame passEnv rainLayers twoSeeds 12 7 oneDrop)))
        = updateDrops (gridDim (canvasHeight passEnv) 12) (drops oneDrop) (random oneDrop)"
    by (rule conjunct1)
  with two_rain_layers_pass
  have "(drops (fst (renderFrame passEnv rainLayers twoSeeds 12 7 oneDrop)),
       random (fst (renderFrame passEnv rainLayers twoSeeds 12 7 oneDrop)))
        = updateDrops (gridDim (canvasHeight passEnv) 12) (drops oneDrop) (random oneDrop)"
    by (rule rev_mp)
  then have "drops (fst (renderFrame passEnv rainLayers twoSeeds 12 7 oneDrop))
        = fst (updateDrops (gridDim (canvasHeight passEnv) 12) (drops oneDrop) (random oneDrop))"
    by (metis fst_conv)
  also have "\<dots> = [\<lparr>drop_x = 0, drop_y = 4 / 5, drop_speed = 1, drop_length = 3 / 2\<rparr>]"
    by (simp add: gridDim_def advanceDrop_def beyond_def Let_def)
  finally have d: "drops (fst (renderFrame passEnv rainLayers twoSeeds 12 7 oneDrop))
     = [\<lparr>drop_x = 0, drop_y = 4 / 5, drop_speed = 1, drop_length = 3 / 2\<rparr>]" .
  from inst two_rain_layers_pass
  have "mainCalls (fst (renderFrame passEnv rainLayers twoSeeds 12 7 oneDrop))
          = mainCalls oneDrop
            @ [MainFillStyle (backgroundOf rainLayers),
               MainFillRect 0 0 (real (canvasWidth passEnv)) (real (canvasHeight passEnv))]
            @ concat (map (\<lambda>l. [MainGlobalAlpha (opacity l),
                                  MainDrawImage (fst (renderLayerToCanvas passEnv (drops oneDrop) twoSeeds l 7)),
                                  MainGlobalAlpha 1])
                        (filter visible rainLayers))"
    by blast
  then have m: "mainCalls (fst (renderFrame passEnv rainLayers twoSeeds 12 7 oneDrop))
     = [MainFillStyle ''#0a0e27'', MainFillRect 0 0 12 24,
        MainGlobalAlpha 1,
        MainDrawImage (fst (renderLayerToCanvas passEnv (drops oneDrop) twoSeeds (rainLayers ! 0) 7)),
        MainGlobalAlpha 1,
        MainGlobalAlpha (1 / 2),
        MainDrawImage (fst (renderLayerToCanvas passEnv (drops oneDrop) twoSeeds (rainLayers ! 1) 7)),
        MainGlobalAlpha 1]"
    by (simp add: backgroundOf_def DEFAULT_LAYER_CONFIG_def)
  have img: "fst (renderLayerToCanvas passEnv (drops oneDrop) twoSeeds (rainLayers ! 0) 7)
     = [ClearRect 0 0 12 24, SetFont 10, SetTextAlign ''center'', SetTextBaseline ''middle'',
        SetShadowColor ''#00ff9f'', SetFillStyle ''#00ff9fff'', SetShadowBlur 10,
        FillText (Some CHR ''0'') 6 6]"
    by (simp add: eval_defs upt2)
  from two_rain_layers_pass d m img show ?thesis by blast
qed

lemma compositeLayer_appends:
  "compositeLayer env seeds frame layer w = (w', e) \<Longrightarrow> \<exists>rest. mainCalls w' = mainCalls w @ rest"
  by (auto simp: compositeLayer_def split: prod.splits option.splits)

lemma composite_loop_appends:
  assumes "forEach (compositeLayer env seeds frame) vs w = (w', e)"
  shows "\<exists>rest. mainCalls w' = mainCalls w @ rest"
proof (rule forEach_invariant[OF assms, where I = "\<lambda>t. \<exists>rest. mainCalls t = mainCalls w @ rest"])
  show "\<exists>rest. mainCalls w = mainCalls w @ rest" by simp
next
  fix x t t' e'
  assume "\<exists>rest. mainCalls t = mainCalls w @ rest" and "compositeLayer env seeds frame x t = (t', e')"
  then obtain r1 r2 where "mainCalls t = mainCalls w @ r1" "mainCalls t' = mainCalls t @ r2"
    using compositeLayer_appends by blast
  then have "mainCalls t' = mainCalls w @ (r1 @ r2)" by simp
  then show "\<exists>rest. mainCalls t' = mainCalls w @ rest" by blast
qed

lemma renderFrame_background_call:
  assumes "canvasMounted env" "mainContext env" "canvasWidth env \<noteq> 0" "canvasHeight env \<noteq> 0"
  shows "\<exists>rest. mainCalls (fst (renderFrame env ls seeds cs frame w))
                  = mainCalls w @ MainFillStyle (backgroundOf ls) # rest"
proof -
  let ?w1 = "w\<lparr>mainCalls := mainCalls w @
                      [MainFillStyle (backgroundOf ls),
                       MainFillRect 0 0 (real (canvasWidth env)) (real (canvasHeight env))]\<rparr>"
  obtain w2 e where loop: "forEach (compositeLayer env seeds frame) (filter visible ls) ?w1 = (w2, e)"
    by (cases "forEach (compositeLayer env seeds frame) (filter visible ls) ?w1")
  from composite_loop_appends[OF loop] obtain r where
    r: "mainCalls w2 = mainCalls w @ MainFillStyle (backgroundOf ls)
                         # (MainFillRect 0 0 (real (canvasWidth env)) (real (canvasHeight env)) # r)"
    by auto
  have "mainCalls (fst (renderFrame env ls seeds cs frame w)) = mainCalls w2"
    using assms loop by (cases e) (simp_all add: renderFrame_def Let_def split: prod.splits)
  with r have "mainCalls (fst (renderFrame env ls seeds cs frame w))
      = mainCalls w @ MainFillStyle (backgroundOf ls)
          # (MainFillRect 0 0 (real (canvasWidth env)) (real (canvasHeight env)) # r)"
    by simp
  then show ?thesis by (rule exI)
qed

text \<open>
  C2 as stated fails: the background fill of a pass is taken from the first layer of the
  list whether or not it is visible, so hiding the bottom layer keeps its red background
  while removing it gives the next layer's background.
\<close>

theorem hidden_bottom_layer_counterexample:
  "mainCalls (fst (renderFrame passEnv
       (redBottomLayers[0 := (redBottomLayers ! 0)\<lparr>visible := False\<rparr>]) twoSeeds 12 7 oneDrop))
     = [MainFillStyle ''#ff0000'', MainFillRect 0 0 12 24, MainGlobalAlpha (1 / 2),
        MainDrawImage [ClearRect 0 0 12 24, SetFont 10, SetTextAlign ''center'',
           SetTextBaseline ''middle'', SetShadowColor ''#00ff9f'', SetFillStyle ''#00ff9fff'',
           SetShadowBlur 10, FillText (Some CHR ''0'') 6 6],
        MainGlobalAlpha 1]
   \<and> mainCalls (fst (renderFrame passEnv
       (take 0 redBottomLayers @ drop (Suc 0) redBottomLayers) twoSeeds 12 7 oneDrop))
     = [MainFillStyle ''#0a0e27'', MainFillRect 0 0 12 24, MainGlobalAlpha (1 / 2),
        MainDrawImage [ClearRect 0 0 12 24, SetFont 10, SetTextAlign ''center'',
           SetTextBaseline ''middle'', SetShadowColor ''#00ff9f'', SetFillStyle ''#00ff9fff'',
           SetShadowBlur 10, FillText (Some CHR ''0'') 6 6],
        MainGlobalAlpha 1]
   \<and> renderFrame passEnv
         (redBottomLayers[0 := (redBottomLayers ! 0)\<lparr>visible := False\<rparr>]) twoSeeds 12 7 oneDrop
       \<noteq> renderFrame passEnv
         (take 0 redBottomLayers @ drop (Suc 0) redBottomLayers) twoSeeds 12 7 oneDrop"
proof -
  have a: "mainCalls (fst (renderFrame passEnv
       (redBottomLayers[0 := (redBottomLayers ! 0)\<lparr>visible := False\<rparr>]) twoSeeds 12 7 oneDrop))
     = [MainFillStyle ''#ff0000'', MainFillRect 0 0 12 24, MainGlobalAlpha (1 / 2),
        MainDrawImage [ClearRect 0 0 12 24, SetFont 10, SetTextAlign ''center'',
           SetTextBaseline ''middle'', SetShadowColor ''#00ff9f'', SetFillStyle ''#00ff9fff'',
           SetShadowBlur 10, FillText (Some CHR ''0'') 6 6],
        MainGlobalAlpha 1]"
    by (simp add: eval_defs upt2)
  have b: "mainCalls (fst (renderFrame passEnv
       (take 0 redBottomLayers @ drop (Suc 0) redBottomLayers) twoSeeds 12 7 oneDrop))
     = [MainFillStyle ''#0a0e27'', MainFillRect 0 0 12 24, MainGlobalAlpha (1 / 2),
        MainDrawImage [ClearRect 0 0 12 24, SetFont 10, SetTextAlign ''center'',
           SetTextBaseline ''middle'', SetShadowColor ''#00ff9f'', SetFillStyle ''#00ff9fff'',
           SetShadowBlur 10, FillText (Some CHR ''0'') 6 6],
        MainGlobalAlpha 1]"
    by (simp add: eval_defs upt2)
  have "renderFrame passEnv
         (redBottomLayers[0 := (redBottomLayers ! 0)\<lparr>visible := False\<rparr>]) twoSeeds 12 7 oneDrop
       \<noteq> renderFrame passEnv
         (take 0 redBottomLayers @ drop (Suc 0) redBottomLayers) twoSeeds 12 7 oneDrop"
  proof
    assume "renderFrame passEnv
         (redBottomLayers[0 := (redBottomLayers ! 0)\<lparr>visible := False\<rparr>]) twoSeeds 12 7 oneDrop
       = renderFrame passEnv
         (take 0 redBottomLayers @ drop (Suc 0) redBottomLayers) twoSeeds 12 7 oneDrop"
    then have "mainCalls (fst (renderFrame passEnv
         (redBottomLayers[0 := (redBottomLayers ! 0)\<lparr>visible := False\<rparr>]) twoSeeds 12 7 oneDrop))
       = mainCalls (fst (renderFrame passEnv
         (take 0 redBottomLayers @ drop (Suc 0) redBottomLayers) twoSeeds 12 7 oneDrop))"
      by (rule arg_cong)
    then show False unfolding a b by simp
  qed
  with a b show ?thesis by blast
qed

text \<open>
  C2, amended. For every layer list, position \<open>k\<close> in it and frame, the pass over the list
  with layer \<open>k\<close> made invisible gives the same result (main canvas calls, drops, random
  source and outcome) as the pass over the list with layer \<open>k\<close> removed, from the same
  drops, seeds and random source, provided the layer is not the bottom one or, when it
  is, the remaining list yields the same background fill. The proviso is needed: unless
  the call returns early, equal results force equal background fills.
\<close>

theorem hidden_layer_renders_as_removed:
  assumes "k < length ls"
  shows "((k = 0 \<longrightarrow> backgroundOf ls = backgroundOf (tl ls)) \<longrightarrow>
            renderFrame env (ls[k := (ls ! k)\<lparr>visible := False\<rparr>]) seeds cs frame w
              = renderFrame env (take k ls @ drop (Suc k) ls) seeds cs frame w)
       \<and> (canvasMounted env \<and> mainContext env \<and> canvasWidth env \<noteq> 0 \<and> canvasHeight env \<noteq> 0
            \<and> renderFrame env (ls[k := (ls ! k)\<lparr>visible := False\<rparr>]) seeds cs frame w
                = renderFrame env (take k ls @ drop (Suc k) ls) seeds cs frame w
          \<longrightarrow> (k = 0 \<longrightarrow> backgroundOf ls = backgroundOf (tl ls)))"
proof -
  let ?hidden = "ls[k := (ls ! k)\<lparr>visible := False\<rparr>]"
  let ?removed = "take k ls @ drop (Suc k) ls"
  have same: "renderFrame env ?hidden seeds cs frame w = renderFrame env ?removed seeds cs frame w"
    if bg: "k = 0 \<longrightarrow> backgroundOf ls = backgroundOf (tl ls)"
  proof (rule renderFrame_cong)
    show "filter visible ?hidden = filter visible ?removed"
      using assms by (rule filter_hidden)
    show "backgroundOf ?hidden = backgroundOf ?removed"
    proof (cases "k = 0")
      case True
      then show ?thesis using bg background_hidden0[of ls] by (simp add: drop_Suc)
    next
      case False
      then show ?thesis using background_hidden[of k ls] assms by simp
    qed
  qed
  have only: "backgroundOf ls = backgroundOf (tl ls)"
    if env: "canvasMounted env" "mainContext env" "canvasWidth env \<noteq> 0" "canvasHeight env \<noteq> 0"
      and eq: "renderFrame env ?hidden seeds cs frame w = renderFrame env ?removed seeds cs frame w"
      and k0: "k = 0"
  proof -
    from renderFrame_background_call[OF env, of ?hidden seeds cs frame w] obtain r1 where
      a: "mainCalls (fst (renderFrame env ?hidden seeds cs frame w))
            = mainCalls w @ MainFillStyle (backgroundOf ?hidden) # r1" by blast
    from renderFrame_background_call[OF env, of ?removed seeds cs frame w] obtain r2 where
      b: "mainCalls (fst (renderFrame env ?removed seeds cs frame w))
            = mainCalls w @ MainFillStyle (backgroundOf ?removed) # r2" by blast
    from a b eq have "backgroundOf ?hidden = backgroundOf ?removed" by simp
    with k0 background_hidden0[of ls] show ?thesis by (simp add: drop_Suc)
  qed
  from same only show ?thesis by blast
qed

theorem hidden_layer_renders_as_removed_witness:
  "(1::nat) < length redBottomLayers \<and> (1::nat) \<noteq> 0
   \<and> renderFrame passEnv (redBottomLayers[1 := (redBottomLayers ! 1)\<lparr>visible := False\<rparr>])
         twoSeeds 12 7 oneDrop
       = renderFrame passEnv (take 1 redBottomLayers @ drop (Suc 1) redBottomLayers)
           twoSeeds 12 7 oneDrop
   \<and> snd (renderFrame passEnv (take 1 redBottomLayers @ drop (Suc 1) redBottomLayers)
           twoSeeds 12 7 oneDrop) = Completed"
proof -
  have h1: "(1::nat) < length redBottomLayers" by simp
  have h2: "(1::nat) = 0 \<longrightarrow> backgroundOf redBottomLayers = backgroundOf (tl redBottomLayers)" by simp
  have c: "snd (renderFrame passEnv (take 1 redBottomLayers @ drop (Suc 1) redBottomLayers)
           twoSeeds 12 7 oneDrop) = Completed"
    by (simp add: eval_defs upt2)
  from hidden_layer_renders_as_removed [OF h1, of passEnv twoSeeds 12 7 oneDrop] h2
  have "renderFrame passEnv (redBottomLayers[1 := (redBottomLayers ! 1)\<lparr>visible := False\<rparr>])
         twoSeeds 12 7 oneDrop
       = renderFrame passEnv (take 1 redBottomLayers @ drop (Suc 1) redBottomLayers)
           twoSeeds 12 7 oneDrop"
    by blast
  with c show ?thesis by simp
qed

section \<open>Pattern renderers\<close>




















text \<open>
  C6 as stated fails: the wave renderer multiplies the wave term by the shape influence
  before blending. With a shape influence value of 0.5 at the cell, a wave value of 0.5
  and a gradient strength of 1, the cell is drawn with brightness 0.25 (alpha suffix
  \<open>3f\<close>), not the 0.5 (\<open>7f\<close>) of the claimed formula.
\<close>

theorem wave_brightness_counterexample:
  "getShapeBrightnessForLayer 0 0 (Finite 1) (Finite 1) (p_layer waveParams) = Inr (Num (1 / 2))
   \<and> waveAlpha (p_frame waveParams) 0 0 = 1 / 2
   \<and> waveCell waveParams 1 1 0 0
       = Inr (Some \<lparr>cd_brightness = 1 / 4, cd_symbol = Some CHR ''0'', cd_x = 6, cd_y = 6\<rparr>)
   \<and> waveAlpha (p_frame waveParams) 0 0 * gradientStrength (config (p_layer waveParams))
        + (1 - gradientStrength (config (p_layer waveParams))) * (1 / 2) = 1 / 2
   \<and> (1 / 4 :: real) \<noteq> 1 / 2
   \<and> fst (renderWavePattern waveParams [])
       = [SetShadowColor ''#00ff9f'', SetFillStyle ''#00ff9f3f'', SetShadowBlur 2,
          FillText (Some CHR ''0'') 6 6]
   \<and> brightnessToHex (1 / 2) = ''7f''"
  by (simp add: eval_defs)

text \<open>
  C6, amended. For a cell \<open>(i, j)\<close> at which the resolver yields the number \<open>sv\<close> and whose
  seed exists, with gradient enabled: the wave renderer draws the cell iff
  \<open>seed.r1 < density * waveAlpha * sv\<close>, and a drawn cell has brightness
  \<open>waveAlpha * sv * gradientStrength + (1 - gradientStrength) * sv\<close>, where
  \<open>waveAlpha = (sin((i + frame * 0.1) * 0.3) * cos((j + frame * 0.1) * 0.3) + 1) / 2\<close>.
\<close>

theorem wave_cell_brightness_and_draw_rule:
  assumes "gradient (config (p_layer params))"
    and "getShapeBrightnessForLayer i j (Finite cols) (Finite rows) (p_layer params) = Inr (Num sv)"
    and "seedAt (p_randomSeeds params)
           (js_rem (Some (i * rows + j)) (int (length (p_randomSeeds params)))) = Inr seed"
  shows "waveAlpha (p_frame params) i j
           = (sin ((real_of_int i + real_of_int (p_frame params) * (1 / 10)) * (3 / 10))
                * cos ((real_of_int j + real_of_int (p_frame params) * (1 / 10)) * (3 / 10)) + 1) / 2
       \<and> ((\<exists>d. waveCell params cols rows i j = Inr (Some d)) \<longleftrightarrow>
             r1 seed < density (config (p_layer params)) * waveAlpha (p_frame params) i j * sv)
       \<and> (waveCell params cols rows i j = Inr None \<longleftrightarrow>
             \<not> r1 seed < density (config (p_layer params)) * waveAlpha (p_frame params) i j * sv)
       \<and> (\<forall>d. waveCell params cols rows i j = Inr (Some d) \<longrightarrow>
             cd_brightness d
               = waveAlpha (p_frame params) i j * sv * gradientStrength (config (p_layer params))
                   + (1 - gradientStrength (config (p_layer params))) * sv
           \<and> cd_x d = cellCentre (p_cellSize params) i \<and> cd_y d = cellCentre (p_cellSize params) j)"
  using assms by (auto simp: waveCell_def waveAlpha_def Let_def mult.assoc)

theorem wave_cell_brightness_and_draw_rule_witness:
  "gradient (config (p_layer waveParams))
   \<and> getShapeBrightnessForLayer 0 0 (Finite 1) (Finite 1) (p_layer waveParams) = Inr (Num (1 / 2))
   \<and> seedAt (p_randomSeeds waveParams)
        (js_rem (Some (0 * 1 + 0)) (int (length (p_randomSeeds waveParams))))
        = Inr \<lparr>r1 = 0, r2 = 0, r3 = 0\<rparr>
   \<and> waveCell waveParams 1 1 0 0
       = Inr (Some \<lparr>cd_brightness = 1 / 4, cd_symbol = Some CHR ''0'', cd_x = 6, cd_y = 6\<rparr>)
   \<and> waveAlpha (p_frame waveParams) 0 0 * (1 / 2) * gradientStrength (config (p_layer waveParams))
        + (1 - gradientStrength (config (p_layer waveParams))) * (1 / 2) = 1 / 4"
  using wave_cell_brightness_and_draw_rule
          [of waveParams 0 0 1 1 "1 / 2" "\<lparr>r1 = 0, r2 = 0, r3 = 0\<rparr>"]
  by (simp add: eval_defs)

end
